theory Spec2Isabelle
  imports Main "HOL-Library.Word"
begin

unbundle bit_operations_syntax

section \<open>SDL\_iostream.c: data model\<close>

text \<open>
  The embedding follows \<^verbatim>\<open>src/3rdparty/sdl3_backport/SDL_iostream.c\<close> for a
  64-bit target. Pointers (\<^verbatim>\<open>Uint8 *\<close>, \<^verbatim>\<open>void *\<close>) and \<^verbatim>\<open>size_t\<close> are
  64-bit words, so pointer arithmetic wraps as the machine's does; \<^verbatim>\<open>Sint64\<close> is
  the same word read with \<open>sint\<close>; \<^verbatim>\<open>int\<close> is a 32-bit word. \<open>NULL\<close> is \<open>0\<close>.

  The memory a stream works on is a flat map from addresses to bytes. The
  transfer buffer a caller hands to read or write (\<^verbatim>\<open>ptr\<close>) is passed by value,
  as the list of its bytes: a read returns the bytes it stored at \<^verbatim>\<open>ptr\<close> (the
  C return value is their number), a write receives the \<^verbatim>\<open>size\<close> bytes at \<^verbatim>\<open>ptr\<close>.
\<close>

type_synonym Uint8 = "8 word"
type_synonym ptr = "64 word"
type_synonym size_t = "64 word"
type_synonym Sint64 = "64 word"
type_synonym cint = "32 word"

text \<open>
  Modelled from the spec: the header that declares \<^verbatim>\<open>SDL_IOStatus\<close>,
  \<^verbatim>\<open>SDL_IOWhence\<close> and \<^verbatim>\<open>SDL_IOStreamInterface\<close> (\<^verbatim>\<open>SDL_iostream_c.h\<close>) is not
  among the sources. The status values are the six of the spec, \<open>READY\<close> being
  the zero value; the whence values are the three of the spec, and
  \<open>SDL_IO_SEEK_OTHER\<close> stands for any other integer passed as a whence (the
  \<^verbatim>\<open>default:\<close> branch of the switches).
\<close>

datatype SDL_IOStatus =
    SDL_IO_STATUS_READY
  | SDL_IO_STATUS_ERROR
  | SDL_IO_STATUS_EOF
  | SDL_IO_STATUS_NOT_READY
  | SDL_IO_STATUS_READONLY
  | SDL_IO_STATUS_WRITEONLY

datatype SDL_IOWhence =
    SDL_IO_SEEK_SET
  | SDL_IO_SEEK_CUR
  | SDL_IO_SEEK_END
  | SDL_IO_SEEK_OTHER

record SDL_PropertiesID =
  memoryPtr :: ptr
  memorySize :: cint
  dynamicMemPtr :: ptr
  stdioFilePtr :: ptr
  fdNumber :: cint
  chunkSize :: cint

definition zero_props :: SDL_PropertiesID where
  "zero_props = \<lparr>memoryPtr = 0, memorySize = 0, dynamicMemPtr = 0, stdioFilePtr = 0,
     fdNumber = 0, chunkSize = 0\<rparr>"

subsection \<open>The environment\<close>

text \<open>
  What the code reads from and writes to outside its own arguments:
  \<^item> \<open>error_msg\<close>: SDL's error message (\<^verbatim>\<open>SDL_SetError\<close>, \<^verbatim>\<open>SDL_ClearError\<close>,
    \<^verbatim>\<open>SDL_GetError\<close>);
  \<^item> \<open>mem\<close>: the flat memory;
  \<^item> \<open>blocks\<close>: the live heap blocks, each with its length;
  \<^item> \<open>allocator\<close>: the addresses the allocator will answer to the coming
    requests, in order (\<open>0\<close>, or an exhausted list: the request fails);
  \<^item> \<open>props\<close>: the \<^verbatim>\<open>props\<close> field of the \<^verbatim>\<open>SDL_IOStream\<close> living at an address
    (kept here because the growable backend reaches it through its
    back-reference \<^verbatim>\<open>iodata->stream\<close>);
  \<^item> \<open>os\<close>: the answers of the operating system and the C library to the coming
    calls, in order (an exhausted list answers \<open>0\<close>); an answer holds the
    integer result \<open>ret\<close>, the \<open>errno\<close> it leaves, the bytes a read delivers
    (\<open>payload\<close>) and, for \<^verbatim>\<open>fstat\<close>, whether the file is a regular file;
  \<^item> \<open>closed_fds\<close>, \<open>closed_files\<close>: the descriptors and files passed to
    \<^verbatim>\<open>close\<close> and \<^verbatim>\<open>fclose\<close> so far; \<open>os_output\<close>: the bytes \<^verbatim>\<open>write\<close> and
    \<^verbatim>\<open>fwrite\<close> have accepted so far, in order;
  \<^item> \<open>indeterminate\<close>: what the caller reads when a function that must return
    a value ends without a \<^verbatim>\<open>return\<close> statement.
\<close>

datatype errno_t = EINTR | EAGAIN | EOTHER

record os_reply =
  ret :: int
  errno :: errno_t
  payload :: "Uint8 list"
  isreg :: bool

record world =
  error_msg :: string
  mem :: "ptr \<Rightarrow> Uint8"
  blocks :: "ptr \<Rightarrow> nat option"
  allocator :: "ptr list"
  props :: "ptr \<Rightarrow> SDL_PropertiesID"
  os :: "os_reply list"
  closed_fds :: "cint list"
  closed_files :: "ptr list"
  os_output :: "Uint8 list"
  indeterminate :: bool

text \<open>
  Modelled from the spec: \<^verbatim>\<open>SDL_SetError\<close>, \<^verbatim>\<open>SDL_ClearError\<close>, \<^verbatim>\<open>SDL_GetError\<close>,
  \<^verbatim>\<open>SDL_InvalidParamError\<close> and \<^verbatim>\<open>SDL_Unsupported\<close> come from the headers of
  SDL 2 (the file includes \<^verbatim>\<open>SDL2/SDL.h\<close>), which are not among the sources:
  the error-message sink of the spec. Setting an error stores a non-empty
  message, the format string of the call with its argument; \<open>strerror\<close> names
  the three kinds of \<open>errno\<close> the code distinguishes.

  In SDL 2 \<^verbatim>\<open>SDL_SetError\<close> returns the \<^verbatim>\<open>int\<close> \<open>- 1\<close>. An \<^verbatim>\<open>SDL_bool\<close> is modelled
  by its truth value (non-zero or zero), which is all the code tests; so where
  the code returns or stores the result of \<^verbatim>\<open>SDL_SetError\<close> as an \<^verbatim>\<open>SDL_bool\<close>,
  that value is non-zero: \<open>SDL_bool_of_SetError\<close>. Where the code returns it as
  an \<^verbatim>\<open>Sint64\<close>, it is \<open>- 1\<close>.
\<close>

definition SDL_SetError :: "string \<Rightarrow> world \<Rightarrow> world" where
  "SDL_SetError msg w = w\<lparr>error_msg := msg\<rparr>"

definition SDL_bool_of_SetError :: bool where
  "SDL_bool_of_SetError = True"

definition SDL_ClearError :: "world \<Rightarrow> world" where
  "SDL_ClearError w = w\<lparr>error_msg := []\<rparr>"

definition SDL_GetError :: "world \<Rightarrow> string" where
  "SDL_GetError w = error_msg w"

definition quoted :: "string \<Rightarrow> string" where
  "quoted s = [CHR 0x27] @ s @ [CHR 0x27]"

definition SDL_InvalidParamError :: "string \<Rightarrow> world \<Rightarrow> world" where
  "SDL_InvalidParamError param w =
     SDL_SetError (''Parameter '' @ quoted param @ '' is invalid'') w"

definition SDL_Unsupported :: "world \<Rightarrow> world" where
  "SDL_Unsupported w = SDL_SetError ''That operation is not supported'' w"

definition strerror :: "errno_t \<Rightarrow> string" where
  "strerror e =
     (case e of
        EINTR \<Rightarrow> ''Interrupted system call''
      | EAGAIN \<Rightarrow> ''Resource temporarily unavailable''
      | EOTHER \<Rightarrow> ''Input/output error'')"

text \<open>
  The allocator. \<^verbatim>\<open>SDL_calloc(1, n)\<close> and \<^verbatim>\<open>SDL_malloc(n)\<close> take the next answer;
  a non-null answer becomes a live block of \<open>n\<close> bytes. \<^verbatim>\<open>SDL_realloc(p, n)\<close>
  takes the next answer too: on failure the old block is untouched; otherwise
  the old block is released and the new one is live. These functions keep the
  books only. The contents of a block are modelled where the code holds the
  block: the objects a stream owns by value (so \<^verbatim>\<open>calloc\<close>'s zeroes are the
  zero fields of those objects), the bytes \<^verbatim>\<open>realloc\<close> preserves at its
  callers.
\<close>

definition next_answer :: "world \<Rightarrow> ptr \<times> world" where
  "next_answer w = (case allocator w of [] \<Rightarrow> (0, w) | a # as \<Rightarrow> (a, w\<lparr>allocator := as\<rparr>))"

definition SDL_malloc :: "nat \<Rightarrow> world \<Rightarrow> ptr \<times> world" where
  "SDL_malloc n w =
     (case next_answer w of (a, w1) \<Rightarrow>
        if a = 0 then (0, w1) else (a, w1\<lparr>blocks := (blocks w1)(a \<mapsto> n)\<rparr>))"

definition SDL_calloc :: "nat \<Rightarrow> world \<Rightarrow> ptr \<times> world" where
  "SDL_calloc n w = SDL_malloc n w"

definition SDL_free :: "ptr \<Rightarrow> world \<Rightarrow> world" where
  "SDL_free p w = (if p = 0 then w else w\<lparr>blocks := (blocks w)(p := None)\<rparr>)"

definition SDL_realloc :: "ptr \<Rightarrow> nat \<Rightarrow> world \<Rightarrow> ptr \<times> world" where
  "SDL_realloc p n w =
     (case next_answer w of (a, w1) \<Rightarrow>
        if a = 0 then (0, w1)
        else (a, w1\<lparr>blocks := ((blocks w1)(p := None))(a \<mapsto> n)\<rparr>))"

text \<open>Reading and writing a run of bytes of the flat memory.\<close>

definition load :: "(ptr \<Rightarrow> Uint8) \<Rightarrow> ptr \<Rightarrow> nat \<Rightarrow> Uint8 list" where
  "load m a n = map (\<lambda>i. m (a + of_nat i)) [0..<n]"

definition store :: "(ptr \<Rightarrow> Uint8) \<Rightarrow> ptr \<Rightarrow> Uint8 list \<Rightarrow> (ptr \<Rightarrow> Uint8)" where
  "store m a bs = (\<lambda>x. if unat (x - a) < length bs then bs ! unat (x - a) else m x)"

text \<open>
  An operand of \<^verbatim>\<open>SDL_memcpy\<close>: an address of the flat memory, or the caller's
  transfer buffer, held by value. \<open>SDL_memcpy\<close> returns the bytes it stored in
  the caller's buffer (none when the destination is an address).
\<close>

datatype operand = Addr ptr | Caller "Uint8 list"

fun fetch :: "operand \<Rightarrow> nat \<Rightarrow> world \<Rightarrow> Uint8 list" where
  "fetch (Addr s) n w = load (mem w) s n"
| "fetch (Caller bs) n w = take n bs"

fun SDL_memcpy :: "operand \<Rightarrow> operand \<Rightarrow> nat \<Rightarrow> world \<Rightarrow> Uint8 list \<times> world" where
  "SDL_memcpy (Caller _) src n w = (fetch src n w, w)"
| "SDL_memcpy (Addr d) src n w = ([], w\<lparr>mem := store (mem w) d (fetch src n w)\<rparr>)"

subsection \<open>The stream and its interface\<close>

text \<open>
  A \<^verbatim>\<open>void *userdata\<close> is the pair of its address and the object it points to:
  the stream owns that object, so it is held by value. The six capabilities
  are optional functions (\<open>None\<close>: a null function pointer), the fields
  \<^verbatim>\<open>size\<close>, \<^verbatim>\<open>seek\<close>, \<^verbatim>\<open>read\<close>, \<^verbatim>\<open>write\<close>, \<^verbatim>\<open>flush\<close> and \<^verbatim>\<open>close\<close> of the
  interface being named \<open>size_fn\<close> ... \<open>close_fn\<close>. The
  \<^verbatim>\<open>SDL_IOStatus *status\<close> argument of read, write and flush is passed in and
  returned.
\<close>

type_synonym 'u ref = "ptr \<times> 'u"

record 'u SDL_IOStreamInterface =
  version :: nat
  size_fn :: "('u ref \<Rightarrow> Sint64) option"
  seek_fn :: "('u ref \<Rightarrow> Sint64 \<Rightarrow> SDL_IOWhence \<Rightarrow> world \<Rightarrow> Sint64 \<times> 'u ref \<times> world) option"
  read_fn :: "('u ref \<Rightarrow> nat \<Rightarrow> SDL_IOStatus \<Rightarrow> world
             \<Rightarrow> Uint8 list \<times> 'u ref \<times> SDL_IOStatus \<times> world) option"
  write_fn :: "('u ref \<Rightarrow> Uint8 list \<Rightarrow> SDL_IOStatus \<Rightarrow> world
             \<Rightarrow> nat \<times> 'u ref \<times> SDL_IOStatus \<times> world) option"
  flush_fn :: "('u ref \<Rightarrow> SDL_IOStatus \<Rightarrow> world \<Rightarrow> bool \<times> 'u ref \<times> SDL_IOStatus \<times> world) option"
  close_fn :: "('u ref \<Rightarrow> world \<Rightarrow> bool \<times> world) option"

text \<open>
  Modelled from the spec: \<^verbatim>\<open>sizeof(SDL_IOStreamInterface)\<close>, a version field and
  six function pointers on a 64-bit target.
\<close>

definition sizeof_SDL_IOStreamInterface :: nat where
  "sizeof_SDL_IOStreamInterface = 56"

text \<open>\<^verbatim>\<open>memset(&iface, 0, sizeof(SDL_IOStreamInterface))\<close>.\<close>

definition zero_iface :: "'u SDL_IOStreamInterface" where
  "zero_iface = \<lparr>version = 0, size_fn = None, seek_fn = None, read_fn = None, write_fn = None,
     flush_fn = None, close_fn = None\<rparr>"

text \<open>
  \<^verbatim>\<open>struct SDL_IOStream\<close>. \<open>self\<close> is the address of the struct (the value of the
  \<^verbatim>\<open>SDL_IOStream *\<close> handle); its \<^verbatim>\<open>props\<close> field is \<open>props w self\<close>. A handle
  is an optional stream, \<open>None\<close> being the null handle.
\<close>

record 'u SDL_IOStream =
  self :: ptr
  iface :: "'u SDL_IOStreamInterface"
  userdata :: "'u ref"
  status :: SDL_IOStatus

definition SDL_GetIOProperties :: "ptr \<Rightarrow> world \<Rightarrow> SDL_PropertiesID" where
  "SDL_GetIOProperties context w = props w context"

section \<open>Fixed-memory backend\<close>

record IOStreamMemData =
  base :: ptr
  here :: ptr
  stop :: ptr

fun mem_size :: "IOStreamMemData ref \<Rightarrow> Sint64" where
  "mem_size (p, iodata) = stop iodata - base iodata"

fun mem_seek :: "IOStreamMemData ref \<Rightarrow> Sint64 \<Rightarrow> SDL_IOWhence \<Rightarrow> world
    \<Rightarrow> Sint64 \<times> IOStreamMemData ref \<times> world" where
  "mem_seek (p, iodata) offset whence w =
     (case (case whence of
              SDL_IO_SEEK_SET \<Rightarrow> Some (base iodata + offset)
            | SDL_IO_SEEK_CUR \<Rightarrow> Some (here iodata + offset)
            | SDL_IO_SEEK_END \<Rightarrow> Some (stop iodata + offset)
            | SDL_IO_SEEK_OTHER \<Rightarrow> None) of
        None \<Rightarrow> (- 1, (p, iodata), SDL_SetError (''Unknown value for '' @ quoted ''whence'') w)
      | Some newpos \<Rightarrow>
          let newpos1 = (if newpos < base iodata then base iodata else newpos);
              newpos2 = (if newpos1 > stop iodata then stop iodata else newpos1);
              iodata' = iodata\<lparr>here := newpos2\<rparr>
          in (here iodata' - base iodata', (p, iodata'), w))"

text \<open>\<open>mem_io\<close> returns the number of bytes copied and the bytes stored in the
  caller's buffer.\<close>

fun mem_io :: "IOStreamMemData ref \<Rightarrow> operand \<Rightarrow> operand \<Rightarrow> nat \<Rightarrow> world
    \<Rightarrow> nat \<times> Uint8 list \<times> IOStreamMemData ref \<times> world" where
  "mem_io (p, iodata) dst src sz w =
     (let mem_available = unat (stop iodata - here iodata);
          sz1 = (if sz > mem_available then mem_available else sz)
      in case SDL_memcpy dst src sz1 w of (out, w1) \<Rightarrow>
           (sz1, out, (p, iodata\<lparr>here := here iodata + of_nat sz1\<rparr>), w1))"

fun mem_read :: "IOStreamMemData ref \<Rightarrow> nat \<Rightarrow> SDL_IOStatus \<Rightarrow> world
    \<Rightarrow> Uint8 list \<times> IOStreamMemData ref \<times> SDL_IOStatus \<times> world" where
  "mem_read (p, iodata) sz st w =
     (case mem_io (p, iodata) (Caller []) (Addr (here iodata)) sz w of
        (n, out, u, w1) \<Rightarrow> (out, u, st, w1))"

fun mem_write :: "IOStreamMemData ref \<Rightarrow> Uint8 list \<Rightarrow> SDL_IOStatus \<Rightarrow> world
    \<Rightarrow> nat \<times> IOStreamMemData ref \<times> SDL_IOStatus \<times> world" where
  "mem_write (p, iodata) bs st w =
     (case mem_io (p, iodata) (Addr (here iodata)) (Caller bs) (length bs) w of
        (n, out, u, w1) \<Rightarrow> (n, u, st, w1))"

fun mem_close :: "IOStreamMemData ref \<Rightarrow> world \<Rightarrow> bool \<times> world" where
  "mem_close (p, iodata) w = (True, SDL_free p w)"

section \<open>Opening and closing a stream\<close>

text \<open>
  \<^verbatim>\<open>SDL_OpenIO\<close>. The stream is allocated with \<^verbatim>\<open>SDL_calloc\<close>, so every field
  starts as zero: no capability, status \<open>READY\<close>, zero properties. The source
  then stores \<^verbatim>\<open>userdata\<close> only; the line that copied the interface into the
  stream, \<^verbatim>\<open>SDL_copyp(&iostr->iface, iface)\<close>, is commented out, so the
  stream's interface stays the zero one.
\<close>

definition sizeof_SDL_IOStream :: nat where
  "sizeof_SDL_IOStream = 112"

definition SDL_OpenIO :: "'u SDL_IOStreamInterface option \<Rightarrow> 'u ref \<Rightarrow> world
    \<Rightarrow> 'u SDL_IOStream option \<times> world" where
  "SDL_OpenIO iface_arg userdata_arg w =
     (case iface_arg of
        None \<Rightarrow> (None, SDL_InvalidParamError ''iface'' w)
      | Some i \<Rightarrow>
          if version i < sizeof_SDL_IOStreamInterface then
            (None, SDL_SetError
               ''Invalid interface, should be initialized with SDL_INIT_INTERFACE()'' w)
          else
            (case SDL_calloc sizeof_SDL_IOStream w of (a, w1) \<Rightarrow>
               if a = 0 then (None, w1)
               else (Some \<lparr>self = a, iface = zero_iface, userdata = userdata_arg,
                            status = SDL_IO_STATUS_READY\<rparr>,
                     w1\<lparr>props := (props w1)(a := zero_props)\<rparr>)))"

definition SDL_CloseIO :: "'u SDL_IOStream option \<Rightarrow> world \<Rightarrow> bool \<times> world" where
  "SDL_CloseIO iostr w =
     (case iostr of
        None \<Rightarrow> (True, w)
      | Some s \<Rightarrow>
          (case (case close_fn (iface s) of
                   None \<Rightarrow> (True, w)
                 | Some f \<Rightarrow> f (userdata s) w) of
             (result, w1) \<Rightarrow> (result, SDL_free (self s) w1)))"

definition SDL_GetIOStatus :: "'u SDL_IOStream option \<Rightarrow> world \<Rightarrow> SDL_IOStatus \<times> world" where
  "SDL_GetIOStatus context w =
     (case context of
        None \<Rightarrow> (SDL_IO_STATUS_ERROR, SDL_InvalidParamError ''context'' w)
      | Some s \<Rightarrow> (status s, w))"

section \<open>Operations on a stream\<close>

text \<open>Each operation returns the handle with the stream as the call left it.\<close>

definition SDL_SeekIO :: "'u SDL_IOStream option \<Rightarrow> Sint64 \<Rightarrow> SDL_IOWhence \<Rightarrow> world
    \<Rightarrow> Sint64 \<times> 'u SDL_IOStream option \<times> world" where
  "SDL_SeekIO context offset whence w =
     (case context of
        None \<Rightarrow> (- 1, None, SDL_InvalidParamError ''context'' w)
      | Some s \<Rightarrow>
          (case seek_fn (iface s) of
             None \<Rightarrow> (- 1, Some s, SDL_Unsupported w)
           | Some f \<Rightarrow>
               (case f (userdata s) offset whence w of
                  (r, u, w1) \<Rightarrow> (r, Some (s\<lparr>userdata := u\<rparr>), w1))))"

definition SDL_TellIO :: "'u SDL_IOStream option \<Rightarrow> world
    \<Rightarrow> Sint64 \<times> 'u SDL_IOStream option \<times> world" where
  "SDL_TellIO context w = SDL_SeekIO context 0 SDL_IO_SEEK_CUR w"


definition SDL_ReadIO :: "'u SDL_IOStream option \<Rightarrow> nat \<Rightarrow> world
    \<Rightarrow> Uint8 list \<times> 'u SDL_IOStream option \<times> world" where
  "SDL_ReadIO context sz w =
     (case context of
        None \<Rightarrow> ([], None, SDL_InvalidParamError ''context'' w)
      | Some s \<Rightarrow>
          (case read_fn (iface s) of
             None \<Rightarrow> ([], Some (s\<lparr>status := SDL_IO_STATUS_WRITEONLY\<rparr>), SDL_Unsupported w)
           | Some f \<Rightarrow>
               let s1 = s\<lparr>status := SDL_IO_STATUS_READY\<rparr>;
                   w1 = SDL_ClearError w
               in if sz = 0 then ([], Some s1, w1)
                  else
                    (case f (userdata s1) sz (status s1) w1 of (bytes, u, st, w2) \<Rightarrow>
                       let st1 =
                         (if length bytes = 0 \<and> st = SDL_IO_STATUS_READY then
                            (if SDL_GetError w2 \<noteq> [] then SDL_IO_STATUS_ERROR
                             else SDL_IO_STATUS_EOF)
                          else st)
                       in (bytes, Some (s1\<lparr>userdata := u, status := st1\<rparr>), w2))))"

definition SDL_WriteIO :: "'u SDL_IOStream option \<Rightarrow> Uint8 list \<Rightarrow> world
    \<Rightarrow> nat \<times> 'u SDL_IOStream option \<times> world" where
  "SDL_WriteIO context buf w =
     (case context of
        None \<Rightarrow> (0, None, SDL_InvalidParamError ''context'' w)
      | Some s \<Rightarrow>
          (case write_fn (iface s) of
             None \<Rightarrow> (0, Some (s\<lparr>status := SDL_IO_STATUS_READONLY\<rparr>), SDL_Unsupported w)
           | Some f \<Rightarrow>
               let s1 = s\<lparr>status := SDL_IO_STATUS_READY\<rparr>;
                   w1 = SDL_ClearError w
               in if length buf = 0 then (0, Some s1, w1)
                  else
                    (case f (userdata s1) buf (status s1) w1 of (bytes, u, st, w2) \<Rightarrow>
                       let st1 =
                         (if bytes = 0 \<and> st = SDL_IO_STATUS_READY then SDL_IO_STATUS_ERROR
                          else st)
                       in (bytes, Some (s1\<lparr>userdata := u, status := st1\<rparr>), w2))))"

definition SDL_FlushIO :: "'u SDL_IOStream option \<Rightarrow> world
    \<Rightarrow> bool \<times> 'u SDL_IOStream option \<times> world" where
  "SDL_FlushIO context w =
     (case context of
        None \<Rightarrow> (SDL_bool_of_SetError, None, SDL_InvalidParamError ''context'' w)
      | Some s \<Rightarrow>
          let s1 = s\<lparr>status := SDL_IO_STATUS_READY\<rparr>;
              w1 = SDL_ClearError w
          in (case (case flush_fn (iface s1) of
                      None \<Rightarrow> (True, userdata s1, status s1, w1)
                    | Some f \<Rightarrow> f (userdata s1) (status s1) w1) of
                (result, u, st, w2) \<Rightarrow>
                  let st1 = (if \<not> result \<and> st = SDL_IO_STATUS_READY then SDL_IO_STATUS_ERROR
                             else st)
                  in (result, Some (s1\<lparr>userdata := u, status := st1\<rparr>), w2)))"

section \<open>Constructors of the memory backends\<close>

definition sizeof_IOStreamMemData :: nat where
  "sizeof_IOStreamMemData = 24"

text \<open>The store into \<^verbatim>\<open>props->memoryPtr\<close> and \<^verbatim>\<open>props->memorySize\<close> (an \<^verbatim>\<open>int\<close>).\<close>

definition set_memory_props :: "ptr \<Rightarrow> ptr \<Rightarrow> size_t \<Rightarrow> world \<Rightarrow> world" where
  "set_memory_props s m sz w =
     w\<lparr>props := (props w)(s := (SDL_GetIOProperties s w)\<lparr>memoryPtr := m, memorySize := ucast sz\<rparr>)\<rparr>"

definition SDL_IOFromMem :: "ptr \<Rightarrow> size_t \<Rightarrow> world
    \<Rightarrow> IOStreamMemData SDL_IOStream option \<times> world" where
  "SDL_IOFromMem m sz w =
     (if m = 0 then (None, SDL_InvalidParamError ''mem'' w)
      else if sz = 0 then (None, SDL_InvalidParamError ''size'' w)
      else
        (case SDL_calloc sizeof_IOStreamMemData w of (a, w1) \<Rightarrow>
           if a = 0 then (None, w1)
           else
             let i = zero_iface\<lparr>version := sizeof_SDL_IOStreamInterface, size_fn := Some mem_size,
                       seek_fn := Some mem_seek, read_fn := Some mem_read,
                       write_fn := Some mem_write, close_fn := Some mem_close\<rparr>;
                 iodata = \<lparr>base = m, here = m, stop = m + sz\<rparr>
             in (case SDL_OpenIO (Some i) (a, iodata) w1 of
                   (None, w2) \<Rightarrow> (None, SDL_free a w2)
                 | (Some s, w2) \<Rightarrow> (Some s, set_memory_props (self s) m sz w2))))"

definition SDL_IOFromConstMem :: "ptr \<Rightarrow> size_t \<Rightarrow> world
    \<Rightarrow> IOStreamMemData SDL_IOStream option \<times> world" where
  "SDL_IOFromConstMem m sz w =
     (if m = 0 then (None, SDL_InvalidParamError ''mem'' w)
      else if sz = 0 then (None, SDL_InvalidParamError ''size'' w)
      else
        (case SDL_calloc sizeof_IOStreamMemData w of (a, w1) \<Rightarrow>
           if a = 0 then (None, w1)
           else
             let i = zero_iface\<lparr>version := sizeof_SDL_IOStreamInterface, size_fn := Some mem_size,
                       seek_fn := Some mem_seek, read_fn := Some mem_read,
                       close_fn := Some mem_close\<rparr>;
                 iodata = \<lparr>base = m, here = m, stop = m + sz\<rparr>
             in (case SDL_OpenIO (Some i) (a, iodata) w1 of
                   (None, w2) \<Rightarrow> (None, SDL_free a w2)
                 | (Some s, w2) \<Rightarrow> (Some s, set_memory_props (self s) m sz w2))))"

section \<open>Growable-memory backend\<close>

text \<open>
  \<^verbatim>\<open>struct IOStreamDynamicMemData\<close>; the field \<^verbatim>\<open>end\<close> is named \<open>end_ptr\<close>. The
  embedded \<^verbatim>\<open>data\<close> lies 8 bytes into the struct, after the \<^verbatim>\<open>stream\<close> pointer.
\<close>

record IOStreamDynamicMemData =
  stream :: ptr
  data :: IOStreamMemData
  end_ptr :: ptr

fun dynamic_mem_size :: "IOStreamDynamicMemData ref \<Rightarrow> Sint64" where
  "dynamic_mem_size (p, iodata) = mem_size (p + 8, data iodata)"

fun dynamic_mem_seek :: "IOStreamDynamicMemData ref \<Rightarrow> Sint64 \<Rightarrow> SDL_IOWhence \<Rightarrow> world
    \<Rightarrow> Sint64 \<times> IOStreamDynamicMemData ref \<times> world" where
  "dynamic_mem_seek (p, iodata) offset whence w =
     (case mem_seek (p + 8, data iodata) offset whence w of
        (r, (q, d), w1) \<Rightarrow> (r, (p, iodata\<lparr>data := d\<rparr>), w1))"

fun dynamic_mem_read :: "IOStreamDynamicMemData ref \<Rightarrow> nat \<Rightarrow> SDL_IOStatus \<Rightarrow> world
    \<Rightarrow> Uint8 list \<times> IOStreamDynamicMemData ref \<times> SDL_IOStatus \<times> world" where
  "dynamic_mem_read (p, iodata) sz st w =
     (case mem_io (p + 8, data iodata) (Caller []) (Addr (here (data iodata))) sz w of
        (n, out, (q, d), w1) \<Rightarrow> (out, (p, iodata\<lparr>data := d\<rparr>), st, w1))"

text \<open>
  \<^verbatim>\<open>dynamic_mem_realloc\<close>. \<^verbatim>\<open>(size_t)chunkSize\<close> sign-extends the \<^verbatim>\<open>int\<close>. The
  arithmetic is \<^verbatim>\<open>size_t\<close> arithmetic and wraps. The bytes \<^verbatim>\<open>SDL_realloc\<close>
  preserves (the first \<open>min old length\<close> of the old block, whose length is
  \<^verbatim>\<open>end - base\<close>) are copied to the new address in the flat memory.

  The source returns \<^verbatim>\<open>SDL_FALSE\<close> when the reallocation fails. On success it
  reaches the closing brace without a \<^verbatim>\<open>return\<close> statement (the statement
  that returned the result of \<^verbatim>\<open>SDL_SetPointerProperty\<close> is commented out), so
  the value its caller tests is \<open>indeterminate w\<close>.
\<close>

definition relocate :: "(ptr \<Rightarrow> Uint8) \<Rightarrow> ptr \<Rightarrow> ptr \<Rightarrow> nat \<Rightarrow> (ptr \<Rightarrow> Uint8)" where
  "relocate m old new n = (\<lambda>x. if unat (x - new) < n then m (old + (x - new)) else m x)"

fun dynamic_mem_realloc :: "IOStreamDynamicMemData ref \<Rightarrow> nat \<Rightarrow> world
    \<Rightarrow> bool \<times> IOStreamDynamicMemData ref \<times> world" where
  "dynamic_mem_realloc (p, iodata) sz w =
     (let chunksize0 = (scast (chunkSize (SDL_GetIOProperties (stream iodata) w)) :: size_t);
          chunksize = (if chunksize0 = 0 then 1024 else chunksize0);
          chunks = ((end_ptr iodata - base (data iodata)) + of_nat sz) div chunksize + 1;
          length0 = chunks * chunksize
      in case SDL_realloc (base (data iodata)) (unat length0) w of (base1, w1) \<Rightarrow>
           if base1 = 0 then (False, (p, iodata), w1)
           else
             let old = unat (end_ptr iodata - base (data iodata));
                 w2 = w1\<lparr>mem := relocate (mem w1) (base (data iodata)) base1
                                   (min old (unat length0))\<rparr>;
                 here_offset = here (data iodata) - base (data iodata);
                 stop_offset = stop (data iodata) - base (data iodata);
                 iodata1 = iodata\<lparr>data := \<lparr>base = base1, here = base1 + here_offset,
                                              stop = base1 + stop_offset\<rparr>,
                                   end_ptr := base1 + length0\<rparr>;
                 w3 = w2\<lparr>props := (props w2)(stream iodata :=
                            (SDL_GetIOProperties (stream iodata) w2)\<lparr>memoryPtr := base1\<rparr>)\<rparr>
             in (indeterminate w3, (p, iodata1), w3))"

fun dynamic_mem_write :: "IOStreamDynamicMemData ref \<Rightarrow> Uint8 list \<Rightarrow> SDL_IOStatus \<Rightarrow> world
    \<Rightarrow> nat \<times> IOStreamDynamicMemData ref \<times> SDL_IOStatus \<times> world" where
  "dynamic_mem_write (p, iodata) buf st w =
     (let sz = length buf;
          copy = (\<lambda>(q, iodata2) w2.
             case mem_io (q + 8, data iodata2) (Addr (here (data iodata2))) (Caller buf) sz w2 of
               (n, out, (q1, d), w3) \<Rightarrow> (n, (q, iodata2\<lparr>data := d\<rparr>), st, w3));
          set_stop = (\<lambda>(q, iodata2).
             (q, iodata2\<lparr>data := (data iodata2)\<lparr>stop := here (data iodata2) + of_nat sz\<rparr>\<rparr>))
      in if sz > unat (stop (data iodata) - here (data iodata)) then
           (if sz > unat (end_ptr iodata - here (data iodata)) then
              (case dynamic_mem_realloc (p, iodata) sz w of (ok, u1, w1) \<Rightarrow>
                 if \<not> ok then (0, u1, st, w1)
                 else copy (set_stop u1) w1)
            else copy (set_stop (p, iodata)) w)
         else copy (p, iodata) w)"

fun dynamic_mem_close :: "IOStreamDynamicMemData ref \<Rightarrow> world \<Rightarrow> bool \<times> world" where
  "dynamic_mem_close (p, iodata) w =
     (let m = memoryPtr (SDL_GetIOProperties (stream iodata) w);
          w1 = (if m \<noteq> 0 then SDL_free m w else w)
      in (True, SDL_free p w1))"

definition sizeof_IOStreamDynamicMemData :: nat where
  "sizeof_IOStreamDynamicMemData = 40"

definition SDL_IOFromDynamicMem :: "world
    \<Rightarrow> IOStreamDynamicMemData SDL_IOStream option \<times> world" where
  "SDL_IOFromDynamicMem w =
     (case SDL_calloc sizeof_IOStreamDynamicMemData w of (a, w1) \<Rightarrow>
        if a = 0 then (None, w1)
        else
          let i = zero_iface\<lparr>version := sizeof_SDL_IOStreamInterface,
                    size_fn := Some dynamic_mem_size, seek_fn := Some dynamic_mem_seek,
                    read_fn := Some dynamic_mem_read, write_fn := Some dynamic_mem_write,
                    close_fn := Some dynamic_mem_close\<rparr>;
              iodata = \<lparr>stream = 0, data = \<lparr>base = 0, here = 0, stop = 0\<rparr>, end_ptr = 0\<rparr>
          in (case SDL_OpenIO (Some i) (a, iodata) w1 of
                (Some s, w2) \<Rightarrow> (Some (s\<lparr>userdata := (a, iodata\<lparr>stream := self s\<rparr>)\<rparr>), w2)
              | (None, w2) \<Rightarrow> (None, SDL_free a w2)))"

section \<open>File-descriptor and buffered-file backends\<close>

text \<open>
  A call of the operating system or the C library takes the next answer of
  \<open>os\<close>. \<open>os_call_retry\<close> is the loop
  \<^verbatim>\<open>do { r = call(...); } while (r < 0 && errno == EINTR);\<close> over those answers.
  A read delivers the first \<open>size\<close> bytes of the answer's payload; a write
  accepts \<open>min size ret\<close> bytes, which are appended to \<open>os_output\<close>. For
  \<^verbatim>\<open>fread\<close> and \<^verbatim>\<open>fwrite\<close> a negative \<open>ret\<close> is the stream's error indicator
  (\<^verbatim>\<open>ferror\<close>).
\<close>

definition os_call :: "world \<Rightarrow> os_reply \<times> world" where
  "os_call w =
     (case os w of
        [] \<Rightarrow> (\<lparr>ret = 0, errno = EOTHER, payload = [], isreg = False\<rparr>, w)
      | r # rs \<Rightarrow> (r, w\<lparr>os := rs\<rparr>))"

fun retry_eintr :: "os_reply list \<Rightarrow> os_reply \<times> os_reply list" where
  "retry_eintr [] = (\<lparr>ret = 0, errno = EOTHER, payload = [], isreg = False\<rparr>, [])"
| "retry_eintr (r # rs) =
     (if ret r < 0 \<and> errno r = EINTR then retry_eintr rs else (r, rs))"

definition os_call_retry :: "world \<Rightarrow> os_reply \<times> world" where
  "os_call_retry w = (case retry_eintr (os w) of (r, rs) \<Rightarrow> (r, w\<lparr>os := rs\<rparr>))"

definition accept_bytes :: "os_reply \<Rightarrow> Uint8 list \<Rightarrow> world \<Rightarrow> nat \<times> world" where
  "accept_bytes r buf w =
     (let n = min (length buf) (nat (ret r))
      in (n, w\<lparr>os_output := os_output w @ take n buf\<rparr>))"

record IOStreamFDData =
  fd :: cint
  autoclose :: bool
  regular_file :: bool

fun fd_seek :: "IOStreamFDData ref \<Rightarrow> Sint64 \<Rightarrow> SDL_IOWhence \<Rightarrow> world
    \<Rightarrow> Sint64 \<times> IOStreamFDData ref \<times> world" where
  "fd_seek (p, iodata) offset whence w =
     (if whence = SDL_IO_SEEK_OTHER then
        (- 1, (p, iodata), SDL_SetError (''Unknown value for '' @ quoted ''whence'') w)
      else
        (case os_call w of (r, w1) \<Rightarrow>
           (of_int (ret r), (p, iodata),
            if ret r < 0
            then SDL_SetError (''Couldn't get stream offset: '' @ strerror (errno r)) w1
            else w1)))"

fun fd_read :: "IOStreamFDData ref \<Rightarrow> nat \<Rightarrow> SDL_IOStatus \<Rightarrow> world
    \<Rightarrow> Uint8 list \<times> IOStreamFDData ref \<times> SDL_IOStatus \<times> world" where
  "fd_read (p, iodata) sz st w =
     (case os_call_retry w of (r, w1) \<Rightarrow>
        if ret r < 0 then
          (if errno r = EAGAIN then ([], (p, iodata), SDL_IO_STATUS_NOT_READY, w1)
           else ([], (p, iodata), st,
                 SDL_SetError (''Error reading from datastream: '' @ strerror (errno r)) w1))
        else (take sz (payload r), (p, iodata), st, w1))"

fun fd_write :: "IOStreamFDData ref \<Rightarrow> Uint8 list \<Rightarrow> SDL_IOStatus \<Rightarrow> world
    \<Rightarrow> nat \<times> IOStreamFDData ref \<times> SDL_IOStatus \<times> world" where
  "fd_write (p, iodata) buf st w =
     (case os_call_retry w of (r, w1) \<Rightarrow>
        if ret r < 0 then
          (if errno r = EAGAIN then (0, (p, iodata), SDL_IO_STATUS_NOT_READY, w1)
           else (0, (p, iodata), st,
                 SDL_SetError (''Error writing to datastream: '' @ strerror (errno r)) w1))
        else (case accept_bytes r buf w1 of (n, w2) \<Rightarrow> (n, (p, iodata), st, w2)))"

fun fd_flush :: "IOStreamFDData ref \<Rightarrow> SDL_IOStatus \<Rightarrow> world
    \<Rightarrow> bool \<times> IOStreamFDData ref \<times> SDL_IOStatus \<times> world" where
  "fd_flush (p, iodata) st w =
     (case os_call_retry w of (r, w1) \<Rightarrow>
        if ret r < 0 then
          (SDL_bool_of_SetError, (p, iodata), st,
           SDL_SetError (''Error flushing datastream: '' @ strerror (errno r)) w1)
        else (True, (p, iodata), st, w1))"

fun fd_close :: "IOStreamFDData ref \<Rightarrow> world \<Rightarrow> bool \<times> world" where
  "fd_close (p, iodata) w =
     (case (if autoclose iodata then
              (case os_call w of (r, w1) \<Rightarrow>
                 let w2 = w1\<lparr>closed_fds := closed_fds w1 @ [fd iodata]\<rparr>
                 in if ret r < 0 then
                      (SDL_bool_of_SetError,
                       SDL_SetError (''Error closing datastream: '' @ strerror (errno r)) w2)
                    else (True, w2))
            else (True, w)) of
        (st, w3) \<Rightarrow> (st, SDL_free p w3))"

definition sizeof_IOStreamFDData :: nat where
  "sizeof_IOStreamFDData = 12"

definition SDL_IOFromFD :: "cint \<Rightarrow> bool \<Rightarrow> world
    \<Rightarrow> IOStreamFDData SDL_IOStream option \<times> world" where
  "SDL_IOFromFD fd_arg autoclose_arg w =
     (case SDL_calloc sizeof_IOStreamFDData w of (a, w1) \<Rightarrow>
        if a = 0 then
          (None, if autoclose_arg
                 then (case os_call w1 of (r, w2) \<Rightarrow> w2\<lparr>closed_fds := closed_fds w2 @ [fd_arg]\<rparr>)
                 else w1)
        else
          let i = zero_iface\<lparr>version := sizeof_SDL_IOStreamInterface, seek_fn := Some fd_seek,
                    read_fn := Some fd_read, write_fn := Some fd_write,
                    flush_fn := Some fd_flush, close_fn := Some fd_close\<rparr>
          in (case os_call w1 of (st, w2) \<Rightarrow>
                let iodata = \<lparr>fd = fd_arg, autoclose = autoclose_arg,
                                regular_file = (ret st = 0 \<and> isreg st)\<rparr>
                in (case SDL_OpenIO (Some i) (a, iodata) w2 of
                      (None, w3) \<Rightarrow> (None, snd (fd_close (a, iodata) w3))
                    | (Some s, w3) \<Rightarrow>
                        (Some s, w3\<lparr>props := (props w3)(self s :=
                           (SDL_GetIOProperties (self s) w3)\<lparr>fdNumber := fd_arg\<rparr>)\<rparr>))))"

text \<open>
  The fields \<^verbatim>\<open>autoclose\<close> and \<^verbatim>\<open>regular_file\<close> of \<^verbatim>\<open>IOStreamStdioData\<close> are named
  \<open>fp_autoclose\<close> and \<open>fp_regular_file\<close>. \<^verbatim>\<open>fseek_off_t\<close> is a 64-bit type, so
  the range check of \<^verbatim>\<open>stdio_seek\<close> compares with the bounds of \<^verbatim>\<open>Sint64\<close>.
\<close>

record IOStreamStdioData =
  fp :: ptr
  fp_autoclose :: bool
  fp_regular_file :: bool

fun stdio_seek :: "IOStreamStdioData ref \<Rightarrow> Sint64 \<Rightarrow> SDL_IOWhence \<Rightarrow> world
    \<Rightarrow> Sint64 \<times> IOStreamStdioData ref \<times> world" where
  "stdio_seek (p, iodata) offset whence w =
     (if whence = SDL_IO_SEEK_OTHER then
        (- 1, (p, iodata), SDL_SetError (''Unknown value for '' @ quoted ''whence'') w)
      else if sint offset < - (2 ^ 63) \<or> sint offset > 2 ^ 63 - 1 then
        (- 1, (p, iodata), SDL_SetError ''Seek offset out of range'' w)
      else
        let is_noop = (whence = SDL_IO_SEEK_CUR \<and> offset = 0);
            sought = (if is_noop then (True, EOTHER, w)
                      else (case os_call w of (r, w1) \<Rightarrow> (ret r = 0, errno r, w1)))
        in if fst sought then
             (case os_call (snd (snd sought)) of (t, w2) \<Rightarrow>
                if ret t < 0 then
                  (- 1, (p, iodata),
                   SDL_SetError (''Couldn't get stream offset: '' @ strerror (errno t)) w2)
                else (of_int (ret t), (p, iodata), w2))
           else (- 1, (p, iodata),
                 SDL_SetError (''Error seeking in datastream: '' @ strerror (fst (snd sought)))
                   (snd (snd sought))))"

fun stdio_read :: "IOStreamStdioData ref \<Rightarrow> nat \<Rightarrow> SDL_IOStatus \<Rightarrow> world
    \<Rightarrow> Uint8 list \<times> IOStreamStdioData ref \<times> SDL_IOStatus \<times> world" where
  "stdio_read (p, iodata) sz st w =
     (case os_call w of (r, w1) \<Rightarrow>
        let bytes = take sz (payload r)
        in if length bytes = 0 \<and> ret r < 0 then
             (if errno r = EAGAIN then (bytes, (p, iodata), SDL_IO_STATUS_NOT_READY, w1)
              else (bytes, (p, iodata), st,
                    SDL_SetError (''Error reading from datastream: '' @ strerror (errno r)) w1))
           else (bytes, (p, iodata), st, w1))"

fun stdio_write :: "IOStreamStdioData ref \<Rightarrow> Uint8 list \<Rightarrow> SDL_IOStatus \<Rightarrow> world
    \<Rightarrow> nat \<times> IOStreamStdioData ref \<times> SDL_IOStatus \<times> world" where
  "stdio_write (p, iodata) buf st w =
     (case os_call w of (r, w1) \<Rightarrow>
        (case accept_bytes r buf w1 of (bytes, w2) \<Rightarrow>
           if bytes = 0 \<and> ret r < 0 then
             (if errno r = EAGAIN then (bytes, (p, iodata), SDL_IO_STATUS_NOT_READY, w2)
              else (bytes, (p, iodata), st,
                    SDL_SetError (''Error writing to datastream: '' @ strerror (errno r)) w2))
           else (bytes, (p, iodata), st, w2)))"

fun stdio_flush :: "IOStreamStdioData ref \<Rightarrow> SDL_IOStatus \<Rightarrow> world
    \<Rightarrow> bool \<times> IOStreamStdioData ref \<times> SDL_IOStatus \<times> world" where
  "stdio_flush (p, iodata) st w =
     (case os_call w of (r, w1) \<Rightarrow>
        if ret r \<noteq> 0 then
          (if errno r = EAGAIN then (False, (p, iodata), SDL_IO_STATUS_NOT_READY, w1)
           else (SDL_bool_of_SetError, (p, iodata), st,
                 SDL_SetError (''Error flushing datastream: '' @ strerror (errno r)) w1))
        else
          (case os_call w1 of (fileno, w2) \<Rightarrow>
             (case os_call_retry w2 of (result, w3) \<Rightarrow>
                if ret result < 0 then
                  (SDL_bool_of_SetError, (p, iodata), st,
                   SDL_SetError (''Error flushing datastream: '' @ strerror (errno result)) w3)
                else (True, (p, iodata), st, w3))))"

fun stdio_close :: "IOStreamStdioData ref \<Rightarrow> world \<Rightarrow> bool \<times> world" where
  "stdio_close (p, iodata) w =
     (case (if fp_autoclose iodata then
              (case os_call w of (r, w1) \<Rightarrow>
                 let w2 = w1\<lparr>closed_files := closed_files w1 @ [fp iodata]\<rparr>
                 in if ret r \<noteq> 0 then
                      (SDL_bool_of_SetError,
                       SDL_SetError (''Error closing datastream: '' @ strerror (errno r)) w2)
                    else (True, w2))
            else (True, w)) of
        (st, w3) \<Rightarrow> (st, SDL_free p w3))"

definition sizeof_IOStreamStdioData :: nat where
  "sizeof_IOStreamStdioData = 16"

definition SDL_IOFromFP :: "ptr \<Rightarrow> bool \<Rightarrow> world
    \<Rightarrow> IOStreamStdioData SDL_IOStream option \<times> world" where
  "SDL_IOFromFP fp_arg autoclose_arg w =
     (case SDL_calloc sizeof_IOStreamStdioData w of (a, w1) \<Rightarrow>
        if a = 0 then
          (None, if autoclose_arg
                 then (case os_call w1 of (r, w2) \<Rightarrow>
                         w2\<lparr>closed_files := closed_files w2 @ [fp_arg]\<rparr>)
                 else w1)
        else
          let i = zero_iface\<lparr>version := sizeof_SDL_IOStreamInterface, seek_fn := Some stdio_seek,
                    read_fn := Some stdio_read, write_fn := Some stdio_write,
                    flush_fn := Some stdio_flush, close_fn := Some stdio_close\<rparr>
          in (case os_call w1 of (fileno1, w2) \<Rightarrow>
             (case os_call w2 of (st, w3) \<Rightarrow>
                let iodata = \<lparr>fp = fp_arg, fp_autoclose = autoclose_arg,
                                fp_regular_file = (ret st = 0 \<and> isreg st)\<rparr>
                in (case SDL_OpenIO (Some i) (a, iodata) w3 of
                      (None, w4) \<Rightarrow> (None, snd (stdio_close (a, iodata) w4))
                    | (Some s, w4) \<Rightarrow>
                        (case os_call w4 of (fileno2, w5) \<Rightarrow>
                           (Some s, w5\<lparr>props := (props w5)(self s :=
                              (SDL_GetIOProperties (self s) w5)\<lparr>stdioFilePtr := fp_arg,
                                 fdNumber := of_int (ret fileno2)\<rparr>)\<rparr>))))))"

section \<open>Bulk helpers\<close>

text \<open>
  \<^verbatim>\<open>size_t\<close> values are natural numbers below \<open>2 ^ 64\<close>; \<open>to_size_t\<close> is the
  conversion of a difference to \<^verbatim>\<open>size_t\<close>, which wraps. \<^verbatim>\<open>Sint64\<close> counters of
  bytes held in a buffer (\<^verbatim>\<open>size\<close>, \<^verbatim>\<open>size_total\<close>) are natural numbers.
  \<^verbatim>\<open>SDL_Delay\<close> has no effect here. A loop that may not end takes fuel, one unit
  for each iteration: \<open>None\<close> means that the fuel ran out.

  The buffer \<^verbatim>\<open>SDL_LoadFile_IO\<close> allocates is held by value, with its address;
  the bytes of a fresh block, and those \<^verbatim>\<open>realloc\<close> adds, are the ones found in
  memory at that address, so they are arbitrary. A read of \<open>bytes\<close> into the
  buffer at offset \<open>k\<close> is \<open>splice\<close>.
\<close>

definition to_size_t :: "int \<Rightarrow> nat" where
  "to_size_t i = nat (i mod 2 ^ 64)"








text \<open>
  The \<^verbatim>\<open>while\<close> loop of \<^verbatim>\<open>SDL_SaveFile_IO\<close>. The call writes the
  \<^verbatim>\<open>datasize - size_written\<close> bytes at \<^verbatim>\<open>data + size_written\<close>.
\<close>

fun save_loop :: "nat \<Rightarrow> 'u SDL_IOStream option \<Rightarrow> Uint8 list \<Rightarrow> nat \<Rightarrow> nat \<Rightarrow> nat \<Rightarrow> world
    \<Rightarrow> (bool \<times> 'u SDL_IOStream option \<times> world) option" where
  "save_loop 0 src buf datasize size_written size_total w = None"
| "save_loop (Suc fuel) src buf datasize size_written size_total w =
     (if size_total < datasize then
        (case SDL_WriteIO src
                (take (to_size_t (int datasize - int size_written)) (drop size_written buf)) w of
           (n, src1, w1) \<Rightarrow>
             if n \<le> 0 then
               (case SDL_GetIOStatus src1 w1 of (st, w2) \<Rightarrow>
                  if st = SDL_IO_STATUS_NOT_READY then
                    save_loop fuel src1 buf datasize n size_total w2
                  else Some (False, src1, w2))
             else save_loop fuel src1 buf datasize n (size_total + n) w1)
      else Some (True, src, w))"

text \<open>
  \<^verbatim>\<open>SDL_SaveFile_IO\<close>; \<open>buf\<close> is \<open>None\<close> for a null \<^verbatim>\<open>data\<close>. The result holds the
  returned value, the stream and the environment.
\<close>

definition SDL_SaveFile_IO :: "nat \<Rightarrow> 'u SDL_IOStream option \<Rightarrow> Uint8 list option \<Rightarrow> nat \<Rightarrow> bool
    \<Rightarrow> world \<Rightarrow> (bool \<times> 'u SDL_IOStream option \<times> world) option" where
  "SDL_SaveFile_IO fuel src buf datasize closeio w =
     (let done = (\<lambda>r. case r of
                    None \<Rightarrow> None
                  | Some (success, src1, w1) \<Rightarrow>
                      Some (success, src1,
                            if closeio \<and> src \<noteq> None then snd (SDL_CloseIO src1 w1) else w1))
      in case src of
           None \<Rightarrow> done (Some (True, None, SDL_InvalidParamError ''src'' w))
         | Some s \<Rightarrow>
             (case buf of
                None \<Rightarrow>
                  if datasize > 0 then done (Some (True, src, SDL_InvalidParamError ''data'' w))
                  else done (Some (True, src, w))
              | Some b \<Rightarrow>
                  if datasize > 0 then done (save_loop fuel src b datasize 0 0 w)
                  else done (Some (True, src, w))))"

section \<open>Endian codec\<close>

text \<open>
  Modelled from the spec: the byte order of the host and the swap macros
  (\<^verbatim>\<open>SDL_BYTEORDER\<close>, \<^verbatim>\<open>SDL_Swap16\<close>, \<^verbatim>\<open>SDL_SwapLE16\<close>, ...) come from SDL's
  \<^verbatim>\<open>SDL_endian.h\<close>, which is not among the sources. The host's byte order is a
  parameter of each codec function. \<open>host_word\<close> is the value of an integer
  object whose bytes in memory are the given ones; \<open>SDL_SwapLE\<close> and
  \<open>SDL_SwapBE\<close> swap the bytes when the host's order is the other one.

  A codec function declares \<^verbatim>\<open>data = 0\<close>, reads into \<^verbatim>\<open>&data\<close> and stores the
  swapped \<^verbatim>\<open>data\<close> in \<^verbatim>\<open>*value\<close> (taken to be non-null). \<open>stored bytes obj\<close> is
  the object \<open>obj\<close> after \<open>bytes\<close> were stored at its start. The result holds
  the returned truth value, \<^verbatim>\<open>*value\<close>, the stream and the environment.
\<close>

datatype byteorder = SDL_LIL_ENDIAN | SDL_BIG_ENDIAN

definition host_word :: "byteorder \<Rightarrow> Uint8 list \<Rightarrow> 'a::len word" where
  "host_word host bytes =
     (case host of
        SDL_LIL_ENDIAN \<Rightarrow> foldr (\<lambda>b acc. ucast b + 256 * acc) bytes 0
      | SDL_BIG_ENDIAN \<Rightarrow> foldl (\<lambda>acc b. 256 * acc + ucast b) 0 bytes)"

definition stored :: "Uint8 list \<Rightarrow> Uint8 list \<Rightarrow> Uint8 list" where
  "stored bytes obj = take (length obj) (bytes @ drop (length bytes) obj)"

definition SDL_Swap16 :: "16 word \<Rightarrow> 16 word" where
  "SDL_Swap16 x = push_bit 8 x OR drop_bit 8 x"

definition SDL_Swap32 :: "32 word \<Rightarrow> 32 word" where
  "SDL_Swap32 x =
     push_bit 24 x OR (push_bit 8 x AND 0x00FF0000) OR (drop_bit 8 x AND 0x0000FF00)
       OR drop_bit 24 x"

definition SDL_Swap64 :: "64 word \<Rightarrow> 64 word" where
  "SDL_Swap64 x =
     push_bit 32 (ucast (SDL_Swap32 (ucast (x AND 0xFFFFFFFF))))
       OR ucast (SDL_Swap32 (ucast (drop_bit 32 x)))"

definition SDL_SwapLE16 :: "byteorder \<Rightarrow> 16 word \<Rightarrow> 16 word" where
  "SDL_SwapLE16 host x = (if host = SDL_LIL_ENDIAN then x else SDL_Swap16 x)"

definition SDL_SwapBE16 :: "byteorder \<Rightarrow> 16 word \<Rightarrow> 16 word" where
  "SDL_SwapBE16 host x = (if host = SDL_LIL_ENDIAN then SDL_Swap16 x else x)"

definition SDL_SwapLE32 :: "byteorder \<Rightarrow> 32 word \<Rightarrow> 32 word" where
  "SDL_SwapLE32 host x = (if host = SDL_LIL_ENDIAN then x else SDL_Swap32 x)"

definition SDL_SwapBE32 :: "byteorder \<Rightarrow> 32 word \<Rightarrow> 32 word" where
  "SDL_SwapBE32 host x = (if host = SDL_LIL_ENDIAN then SDL_Swap32 x else x)"

definition SDL_SwapLE64 :: "byteorder \<Rightarrow> 64 word \<Rightarrow> 64 word" where
  "SDL_SwapLE64 host x = (if host = SDL_LIL_ENDIAN then x else SDL_Swap64 x)"

definition SDL_SwapBE64 :: "byteorder \<Rightarrow> 64 word \<Rightarrow> 64 word" where
  "SDL_SwapBE64 host x = (if host = SDL_LIL_ENDIAN then SDL_Swap64 x else x)"

definition SDL_ReadU8Ptr :: "byteorder \<Rightarrow> 'u SDL_IOStream option \<Rightarrow> world
    \<Rightarrow> bool \<times> 8 word \<times> 'u SDL_IOStream option \<times> world" where
  "SDL_ReadU8Ptr host src w =
     (case SDL_ReadIO src 1 w of (bytes, src1, w1) \<Rightarrow>
        (length bytes = 1, host_word host (stored bytes [0]), src1, w1))"

definition SDL_ReadU16LE :: "byteorder \<Rightarrow> 'u SDL_IOStream option \<Rightarrow> world
    \<Rightarrow> bool \<times> 16 word \<times> 'u SDL_IOStream option \<times> world" where
  "SDL_ReadU16LE host src w =
     (case SDL_ReadIO src 2 w of (bytes, src1, w1) \<Rightarrow>
        (length bytes = 2, SDL_SwapLE16 host (host_word host (stored bytes [0, 0])), src1, w1))"

definition SDL_ReadU16BE :: "byteorder \<Rightarrow> 'u SDL_IOStream option \<Rightarrow> world
    \<Rightarrow> bool \<times> 16 word \<times> 'u SDL_IOStream option \<times> world" where
  "SDL_ReadU16BE host src w =
     (case SDL_ReadIO src 2 w of (bytes, src1, w1) \<Rightarrow>
        (length bytes = 2, SDL_SwapBE16 host (host_word host (stored bytes [0, 0])), src1, w1))"

definition SDL_ReadU32LE :: "byteorder \<Rightarrow> 'u SDL_IOStream option \<Rightarrow> world
    \<Rightarrow> bool \<times> 32 word \<times> 'u SDL_IOStream option \<times> world" where
  "SDL_ReadU32LE host src w =
     (case SDL_ReadIO src 4 w of (bytes, src1, w1) \<Rightarrow>
        (length bytes = 4, SDL_SwapLE32 host (host_word host (stored bytes [0, 0, 0, 0])),
         src1, w1))"

definition SDL_ReadU32BE :: "byteorder \<Rightarrow> 'u SDL_IOStream option \<Rightarrow> world
    \<Rightarrow> bool \<times> 32 word \<times> 'u SDL_IOStream option \<times> world" where
  "SDL_ReadU32BE host src w =
     (case SDL_ReadIO src 4 w of (bytes, src1, w1) \<Rightarrow>
        (length bytes = 4, SDL_SwapBE32 host (host_word host (stored bytes [0, 0, 0, 0])),
         src1, w1))"

definition SDL_ReadU64LE :: "byteorder \<Rightarrow> 'u SDL_IOStream option \<Rightarrow> world
    \<Rightarrow> bool \<times> 64 word \<times> 'u SDL_IOStream option \<times> world" where
  "SDL_ReadU64LE host src w =
     (case SDL_ReadIO src 8 w of (bytes, src1, w1) \<Rightarrow>
        (length bytes = 8,
         SDL_SwapLE64 host (host_word host (stored bytes [0, 0, 0, 0, 0, 0, 0, 0])), src1, w1))"

definition SDL_ReadU64BE :: "byteorder \<Rightarrow> 'u SDL_IOStream option \<Rightarrow> world
    \<Rightarrow> bool \<times> 64 word \<times> 'u SDL_IOStream option \<times> world" where
  "SDL_ReadU64BE host src w =
     (case SDL_ReadIO src 8 w of (bytes, src1, w1) \<Rightarrow>
        (length bytes = 8,
         SDL_SwapBE64 host (host_word host (stored bytes [0, 0, 0, 0, 0, 0, 0, 0])), src1, w1))"

section \<open>A concrete environment\<close>

text \<open>An environment with no error, zeroed memory, no live block and no answers.\<close>

definition world0 :: world where
  "world0 = \<lparr>error_msg = [], mem = (\<lambda>x. 0), blocks = (\<lambda>x. None), allocator = [],
     props = (\<lambda>x. zero_props), os = [], closed_fds = [], closed_files = [],
     os_output = [], indeterminate = False\<rparr>"

text \<open>An environment whose allocator answers two requests.\<close>

definition world_alloc :: world where
  "world_alloc = world0\<lparr>allocator := [64, 128]\<rparr>"

text \<open>
  Streams whose interface holds the capabilities of a backend, as the
  constructors prepare it: a fixed-memory stream over the five bytes at 4096
  with its cursor at the end, and a descriptor stream.
\<close>

definition mem_stream_at_end :: "IOStreamMemData SDL_IOStream" where
  "mem_stream_at_end = \<lparr>self = 128,
     iface = zero_iface\<lparr>read_fn := Some mem_read, write_fn := Some mem_write\<rparr>,
     userdata = (64, \<lparr>base = 4096, here = 4101, stop = 4101\<rparr>),
     status = SDL_IO_STATUS_READY\<rparr>"

definition fd_stream :: "IOStreamFDData SDL_IOStream" where
  "fd_stream = \<lparr>self = 128,
     iface = zero_iface\<lparr>seek_fn := Some fd_seek, read_fn := Some fd_read,
       write_fn := Some fd_write, flush_fn := Some fd_flush, close_fn := Some fd_close\<rparr>,
     userdata = (64, \<lparr>fd = 3, autoclose = True, regular_file = False\<rparr>),
     status = SDL_IO_STATUS_READY\<rparr>"

text \<open>An environment in which the next system call fails with an error.\<close>

definition world_read_error :: world where
  "world_read_error = world0\<lparr>os := [\<lparr>ret = - 1, errno = EOTHER, payload = [], isreg = False\<rparr>]\<rparr>"

section \<open>The clamp of a seek, in the spec's words\<close>

text \<open>
  The spec's description of a seek in a memory backend: the candidate position
  is the origin named by the whence (start, cursor or end of the region) plus
  the offset, clamped into \<open>[base, stop]\<close>. \<open>seek_position\<close> is that clamp of
  the candidate as the machine computes it, with 64-bit wrap-around.
\<close>

definition seek_origin :: "IOStreamMemData \<Rightarrow> SDL_IOWhence \<Rightarrow> ptr" where
  "seek_origin d whence =
     (case whence of SDL_IO_SEEK_SET \<Rightarrow> base d | SDL_IO_SEEK_CUR \<Rightarrow> here d
      | SDL_IO_SEEK_END \<Rightarrow> stop d | SDL_IO_SEEK_OTHER \<Rightarrow> base d)"

definition clamp_ptr :: "ptr \<Rightarrow> ptr \<Rightarrow> ptr \<Rightarrow> ptr" where
  "clamp_ptr lo hi x = (if x < lo then lo else if hi < x then hi else x)"

definition seek_position :: "IOStreamMemData \<Rightarrow> SDL_IOWhence \<Rightarrow> Sint64 \<Rightarrow> ptr" where
  "seek_position d whence offset =
     clamp_ptr (base d) (stop d) (seek_origin d whence + offset)"

text \<open>Two five-byte regions, one low and one high in the address space.\<close>

definition buffer5 :: IOStreamMemData where
  "buffer5 = \<lparr>base = 4096, here = 4096, stop = 4101\<rparr>"

definition region5 :: IOStreamMemData where
  "region5 = \<lparr>base = 0x7f0000001000, here = 0x7f0000001000, stop = 0x7f0000001005\<rparr>"

text \<open>
  A read-only memory stream over the five bytes at 4096 with one byte left to
  read, and an environment in which that byte is \<open>0xAB\<close>.
\<close>

definition world_ab :: world where
  "world_ab = world0\<lparr>mem := (\<lambda>x. if x = 4100 then 0xAB else 0)\<rparr>"

definition mem_stream_one_left :: "IOStreamMemData SDL_IOStream" where
  "mem_stream_one_left = \<lparr>self = 128,
     iface = zero_iface\<lparr>size_fn := Some mem_size, seek_fn := Some mem_seek,
       read_fn := Some mem_read, close_fn := Some mem_close\<rparr>,
     userdata = (64, \<lparr>base = 4096, here = 4100, stop = 4101\<rparr>),
     status = SDL_IO_STATUS_READY\<rparr>"

section \<open>The growth of the growable backend, in the spec's words\<close>

text \<open>
  \<open>chunk_of\<close> is the chunk size the backend of the stream at \<open>s\<close> uses: the
  \<^verbatim>\<open>chunkSize\<close> property, or 1024 when it is unset (zero). \<open>capacity\<close> is the
  length of the backing allocation, \<^verbatim>\<open>end - base\<close>. \<open>grown_length\<close> is the length
  of the allocation after a growth for \<open>sz\<close> more bytes.
\<close>

definition chunk_word :: "ptr \<Rightarrow> world \<Rightarrow> size_t" where
  "chunk_word s w =
     (if (scast (chunkSize (props w s)) :: size_t) = 0 then 1024
      else scast (chunkSize (props w s)))"

definition chunk_of :: "ptr \<Rightarrow> world \<Rightarrow> nat" where
  "chunk_of s w = unat (chunk_word s w)"

definition capacity :: "IOStreamDynamicMemData \<Rightarrow> nat" where
  "capacity iodata = unat (end_ptr iodata - base (data iodata))"

definition grown_length :: "IOStreamDynamicMemData \<Rightarrow> nat \<Rightarrow> world \<Rightarrow> nat" where
  "grown_length iodata sz w =
     ((capacity iodata + sz) div chunk_of (stream iodata) w + 1) * chunk_of (stream iodata) w"

text \<open>
  States of a growable backend: a fresh one, and one that holds 10 bytes in
  an allocation of 1024 with its cursor after them. Environments whose
  allocator answers one request, with an address or with \<^verbatim>\<open>NULL\<close>.
\<close>

definition fresh_dynamic :: IOStreamDynamicMemData where
  "fresh_dynamic = \<lparr>stream = 128, data = \<lparr>base = 0, here = 0, stop = 0\<rparr>, end_ptr = 0\<rparr>"

definition grown10 :: IOStreamDynamicMemData where
  "grown10 = \<lparr>stream = 128, data = \<lparr>base = 4096, here = 4106, stop = 4106\<rparr>, end_ptr = 5120\<rparr>"

definition world_realloc :: world where
  "world_realloc = world0\<lparr>allocator := [8192]\<rparr>"

definition world_no_memory :: world where
  "world_no_memory = world0\<lparr>allocator := [0]\<rparr>"

text \<open>
  Answers of the operating system to a write: \<open>accepts n\<close> takes \<open>n\<close> bytes,
  \<open>would_block\<close> fails with \<^verbatim>\<open>EAGAIN\<close>. An environment in which each write takes
  one byte, and one in which a write takes two bytes, the next would block and
  the third takes four. \<open>sent\<close> is the returned truth value with the bytes the
  operating system has accepted.
\<close>

definition accepts :: "int \<Rightarrow> os_reply" where
  "accepts n = \<lparr>ret = n, errno = EOTHER, payload = [], isreg = False\<rparr>"

definition would_block :: os_reply where
  "would_block = \<lparr>ret = - 1, errno = EAGAIN, payload = [], isreg = False\<rparr>"

definition world_one_byte_writes :: world where
  "world_one_byte_writes = world0\<lparr>os := [accepts 1, accepts 1, accepts 1, accepts 1]\<rparr>"

definition world_would_block :: world where
  "world_would_block = world0\<lparr>os := [accepts 2, would_block, accepts 4]\<rparr>"

definition sent :: "(bool \<times> 'u SDL_IOStream option \<times> world) option \<Rightarrow> (bool \<times> Uint8 list) option" where
  "sent r = (case r of None \<Rightarrow> None | Some (ok, s, w) \<Rightarrow> Some (ok, os_output w))"

section \<open>The round trip, in the spec's words\<close>

text \<open>
  \<open>read_back c b w\<close> performs write(b), then seek(0, Set), then a read of length
  \<open>|b|\<close> through the handle \<open>c\<close>, and returns what the three calls returned: the
  count written, the position and the bytes read. \<open>region_ok\<close> says that the
  region of a growable stream does not wrap around the address space
  (\<open>base \<le> stop\<close>).
\<close>

definition read_back :: "'u SDL_IOStream option \<Rightarrow> Uint8 list \<Rightarrow> world \<Rightarrow> nat \<times> Sint64 \<times> Uint8 list" where
  "read_back c b w =
     (case SDL_WriteIO c b w of (n, ca, wa) \<Rightarrow>
        (case SDL_SeekIO ca 0 SDL_IO_SEEK_SET wa of (pos, cb, wb) \<Rightarrow>
           (case SDL_ReadIO cb (length b) wb of (bytes, cc, wc) \<Rightarrow> (n, pos, bytes))))"

definition region_ok :: "IOStreamDynamicMemData SDL_IOStream option \<Rightarrow> bool" where
  "region_ok c =
     (case c of None \<Rightarrow> False
      | Some s \<Rightarrow> base (data (snd (userdata s))) \<le> stop (data (snd (userdata s))))"

text \<open>
  Streams whose interface holds the capabilities of the fixed-memory backend
  (over the five bytes at 4096, cursor at the start) and of the growable
  backend (fresh), as \<open>SDL_IOFromMem\<close> and \<open>SDL_IOFromDynamicMem\<close> prepare them;
  an environment whose allocator answers one request and in which an
  indeterminate value reads as true.
\<close>

definition mem_stream_rw :: "IOStreamMemData SDL_IOStream" where
  "mem_stream_rw = \<lparr>self = 128,
     iface = zero_iface\<lparr>size_fn := Some mem_size, seek_fn := Some mem_seek,
       read_fn := Some mem_read, write_fn := Some mem_write, close_fn := Some mem_close\<rparr>,
     userdata = (64, buffer5), status = SDL_IO_STATUS_READY\<rparr>"

definition dynamic_stream :: "IOStreamDynamicMemData SDL_IOStream" where
  "dynamic_stream = \<lparr>self = 128,
     iface = zero_iface\<lparr>size_fn := Some dynamic_mem_size, seek_fn := Some dynamic_mem_seek,
       read_fn := Some dynamic_mem_read, write_fn := Some dynamic_mem_write,
       close_fn := Some dynamic_mem_close\<rparr>,
     userdata = (64, fresh_dynamic), status = SDL_IO_STATUS_READY\<rparr>"

definition world_realloc_true :: world where
  "world_realloc_true = world_realloc\<lparr>indeterminate := True\<rparr>"

section \<open>Loading a stream of unknown size, in the spec's words\<close>








section \<open>Words\<close>

lemma sint_small: "unat (x :: 64 word) < 2 ^ 63 \<Longrightarrow> sint x = uint x"
proof -
  assume a: "unat x < 2 ^ 63"
  have "int (unat x) < int (2 ^ 63)" using a by (simp only: of_nat_less_iff)
  then have "uint x < 2 ^ 63" by simp
  moreover have "- (2 ^ 63) \<le> uint x"
    by (rule order_trans[of _ 0]) simp_all
  ultimately have "signed_take_bit 63 (uint x) = uint x"
    by (intro signed_take_bit_int_eq_self) simp_all
  then show ?thesis by (simp add: sint_uint)
qed

lemma unat_le_uint: "unat (a :: 64 word) \<le> unat (b :: 64 word) \<Longrightarrow> uint a \<le> uint b"
  by (simp add: word_le_nat_alt[symmetric] word_le_def)

lemma sub_mono:
  fixes b s x :: "64 word"
  assumes "b \<le> x" "x \<le> s"
  shows "unat (x - b) \<le> unat (s - b)"
  by (metis assms(2) assms(1) word_le_minus_mono_left word_le_nat_alt)

lemma clamp_between:
  fixes b s n :: "64 word"
  assumes "b \<le> s"
  shows "b \<le> (if (if n < b then b else n) > s then s else (if n < b then b else n))
       \<and> (if (if n < b then b else n) > s then s else (if n < b then b else n)) \<le> s"
  using assms by (auto simp: not_less)

section \<open>Seeking in a memory backend\<close>

lemma uint_add_signed:
  fixes a off :: "64 word"
  assumes "0 \<le> uint a + sint off" "uint a + sint off < 2 ^ 64"
  shows "uint (a + off) = uint a + sint off"
proof -
  have "a + off = word_of_int (uint a + sint off)"
    by simp
  then have "uint (a + off) = (uint a + sint off) mod 2 ^ 64"
    by (simp only: uint_word_of_int) simp
  then show ?thesis using assms by simp
qed

lemma mem_seek_exact:
  assumes bs: "base d \<le> stop d" and wh: "whence \<noteq> SDL_IO_SEEK_OTHER"
  shows "mem_seek (p, d) offset whence w =
    (clamp_ptr (base d) (stop d) (seek_origin d whence + offset) - base d,
     (p, d\<lparr>here := clamp_ptr (base d) (stop d) (seek_origin d whence + offset)\<rparr>), w)"
  using wh bs by (cases whence) (auto simp: seek_origin_def clamp_ptr_def Let_def)

lemma clamp_ptr_range:
  "lo \<le> hi \<Longrightarrow> lo \<le> clamp_ptr lo hi x \<and> clamp_ptr lo hi x \<le> hi"
  by (auto simp: clamp_ptr_def)

lemma uint_clamp_ptr:
  "lo \<le> hi \<Longrightarrow> uint (clamp_ptr lo hi x) = max (uint lo) (min (uint hi) (uint x))"
  by (auto simp: clamp_ptr_def word_less_def word_le_def)

lemma uint_sub_le: "(b :: 64 word) \<le> x \<Longrightarrow> uint (x - b) = uint x - uint b"
  using uint_sub_lem[where x = x and y = b] by (simp add: word_le_def)

lemma seek_position_facts:
  fixes d :: IOStreamMemData and whence :: SDL_IOWhence and offset :: Sint64
  assumes b1: "base d \<le> here d" and b2: "here d \<le> stop d"
    and sm: "unat (stop d - base d) < 2 ^ 63" and wh: "whence \<noteq> SDL_IO_SEEK_OTHER"
  defines "c \<equiv> clamp_ptr (base d) (stop d) (seek_origin d whence + offset)"
  shows "0 \<le> sint (c - base d)" "sint (c - base d) \<le> sint (stop d - base d)"
    "0 \<le> uint (seek_origin d whence) + sint offset \<and>
     uint (seek_origin d whence) + sint offset < 2 ^ 64 \<longrightarrow>
       sint (c - base d) =
         max 0 (min (sint (stop d - base d)) (sint (seek_origin d whence - base d) + sint offset))"
proof -
  have bs: "base d \<le> stop d" using b1 b2 by simp
  have r: "base d \<le> c" "c \<le> stop d"
    using clamp_ptr_range[OF bs] by (simp_all add: c_def)
  have le: "unat (c - base d) \<le> unat (stop d - base d)"
    by (rule sub_mono[OF r])
  then have small: "unat (c - base d) < 2 ^ 63" using sm by linarith
  have sc: "sint (c - base d) = uint c - uint (base d)"
    using sint_small[OF small] uint_sub_le[OF r(1)] by simp
  have ss: "sint (stop d - base d) = uint (stop d) - uint (base d)"
    using sint_small[OF sm] uint_sub_le[OF bs] by simp
  show "0 \<le> sint (c - base d)" using sint_small[OF small] by simp
  show "sint (c - base d) \<le> sint (stop d - base d)"
    using sc ss r(2) by (simp add: word_le_def)
  have o: "base d \<le> seek_origin d whence" "seek_origin d whence \<le> stop d"
    using b1 b2 wh by (cases whence; simp add: seek_origin_def)+
  have "unat (seek_origin d whence - base d) \<le> unat (stop d - base d)"
    by (rule sub_mono[OF o])
  then have osm: "unat (seek_origin d whence - base d) < 2 ^ 63" using sm by linarith
  have so: "sint (seek_origin d whence - base d) = uint (seek_origin d whence) - uint (base d)"
    using sint_small[OF osm] uint_sub_le[OF o(1)] by simp
  show "0 \<le> uint (seek_origin d whence) + sint offset \<and>
     uint (seek_origin d whence) + sint offset < 2 ^ 64 \<longrightarrow>
       sint (c - base d) =
         max 0 (min (sint (stop d - base d)) (sint (seek_origin d whence - base d) + sint offset))"
  proof
    assume nw: "0 \<le> uint (seek_origin d whence) + sint offset \<and>
     uint (seek_origin d whence) + sint offset < 2 ^ 64"
    have u: "uint (seek_origin d whence + offset) = uint (seek_origin d whence) + sint offset"
      using uint_add_signed nw by blast
    have "uint c = max (uint (base d)) (min (uint (stop d)) (uint (seek_origin d whence) + sint offset))"
      unfolding c_def using uint_clamp_ptr[OF bs] u by simp
    then show "sint (c - base d) =
         max 0 (min (sint (stop d - base d)) (sint (seek_origin d whence - base d) + sint offset))"
      unfolding sc ss so by linarith
  qed
qed

text \<open>
  C7, as the code has it. In a memory backend, fixed (\<open>mem_seek\<close>) or growable
  (\<open>dynamic_mem_seek\<close>), whose region is well formed (\<open>base \<le> here \<le> stop\<close>,
  shorter than \<open>2 ^ 63\<close> bytes), a seek with any of the three whence values
  and any 64-bit offset never fails: it sets no error, moves the cursor to
  \<open>seek_position\<close> (the candidate, computed with wrap-around, clamped into
  \<open>[base, stop]\<close>) and returns the cursor's offset from \<open>base\<close>, which lies
  between \<open>0\<close> and the size of the region, both included. When the candidate
  does not wrap around the address space, the returned position is the clamp
  into \<open>[0, size]\<close> of the origin's offset plus the seek offset.
\<close>

theorem memory_seek_clamps:
  fixes d :: IOStreamMemData and g :: IOStreamDynamicMemData
  assumes "base d \<le> here d" and "here d \<le> stop d" and "unat (stop d - base d) < 2 ^ 63"
    and "whence \<noteq> SDL_IO_SEEK_OTHER"
  shows "mem_seek (p, d) offset whence w =
           (seek_position d whence offset - base d,
            (p, d\<lparr>here := seek_position d whence offset\<rparr>), w)
       \<and> dynamic_mem_seek (q, g\<lparr>data := d\<rparr>) offset whence w =
           (seek_position d whence offset - base d,
            (q, g\<lparr>data := d\<lparr>here := seek_position d whence offset\<rparr>\<rparr>), w)
       \<and> base d \<le> seek_position d whence offset \<and> seek_position d whence offset \<le> stop d
       \<and> 0 \<le> sint (seek_position d whence offset - base d)
       \<and> sint (seek_position d whence offset - base d) \<le> sint (mem_size (p, d))
       \<and> (0 \<le> uint (seek_origin d whence) + sint offset
            \<and> uint (seek_origin d whence) + sint offset < 2 ^ 64 \<longrightarrow>
          sint (seek_position d whence offset - base d) =
            max 0 (min (sint (mem_size (p, d)))
                       (sint (seek_origin d whence - base d) + sint offset)))"
proof -
  have bs: "base d \<le> stop d" using assms(1,2) by simp
  have e: "mem_seek (a, d) offset whence w =
           (seek_position d whence offset - base d,
            (a, d\<lparr>here := seek_position d whence offset\<rparr>), w)" for a
    unfolding seek_position_def by (rule mem_seek_exact[OF bs assms(4)])
  have dy: "dynamic_mem_seek (q, g\<lparr>data := d\<rparr>) offset whence w =
           (seek_position d whence offset - base d,
            (q, g\<lparr>data := d\<lparr>here := seek_position d whence offset\<rparr>\<rparr>), w)"
    using e[of "q + 8"] by (simp del: mem_seek.simps)
  note f = seek_position_facts[OF assms, of offset]
  have r: "base d \<le> seek_position d whence offset \<and> seek_position d whence offset \<le> stop d"
    unfolding seek_position_def by (rule clamp_ptr_range[OF bs])
  show ?thesis
    using e[of p] dy r f unfolding seek_position_def by simp
qed

text \<open>The spec's example: seeking offset +10 from End on a 5-byte buffer yields 5.\<close>

theorem memory_seek_clamps_witness:
  "mem_seek (64, buffer5) 10 SDL_IO_SEEK_END world0 = (5, (64, buffer5\<lparr>here := 4101\<rparr>), world0)
   \<and> sint (fst (mem_seek (64, buffer5) 10 SDL_IO_SEEK_END world0))
       = max 0 (min 5 (5 + 10))"
proof -
  have h: "base buffer5 \<le> here buffer5" "here buffer5 \<le> stop buffer5"
    "unat (stop buffer5 - base buffer5) < 2 ^ 63" "SDL_IO_SEEK_END \<noteq> SDL_IO_SEEK_OTHER"
    by (simp_all add: buffer5_def)
  have sp: "seek_position buffer5 SDL_IO_SEEK_END 10 = 4101"
    by (simp add: seek_position_def seek_origin_def clamp_ptr_def buffer5_def)
  have nw: "0 \<le> uint (seek_origin buffer5 SDL_IO_SEEK_END) + sint (10 :: Sint64)
      \<and> uint (seek_origin buffer5 SDL_IO_SEEK_END) + sint (10 :: Sint64) < 2 ^ 64"
    by (simp add: seek_origin_def buffer5_def)
  note t = memory_seek_clamps[OF h, where p = 64 and offset = 10 and w = world0]
  have a: "mem_seek (64, buffer5) 10 SDL_IO_SEEK_END world0
      = (5, (64, buffer5\<lparr>here := 4101\<rparr>), world0)"
    using t[THEN conjunct1] unfolding sp by (simp add: buffer5_def)
  have b: "sint (seek_position buffer5 SDL_IO_SEEK_END 10 - base buffer5) =
            max 0 (min (sint (mem_size (64, buffer5)))
                       (sint (seek_origin buffer5 SDL_IO_SEEK_END - base buffer5) + sint (10 :: Sint64)))"
    using t nw by blast
  have c: "sint (fst (mem_seek (64, buffer5) 10 SDL_IO_SEEK_END world0)) = max 0 (min 5 (5 + 10))"
    using b unfolding a sp by (simp add: buffer5_def seek_origin_def)
  show ?thesis using a c by simp
qed

text \<open>
  When the candidate wraps, the clamp of the integers is not what the code
  returns: seeking the offset \<open>- 2 ^ 63\<close> from Set in a 5-byte region at
  \<open>0x7f0000001000\<close> yields 5, where the clamp of \<open>0 - 2 ^ 63\<close> into \<open>[0, 5]\<close>
  is 0.
\<close>

theorem memory_seek_wrap_counterexample:
  "sint (fst (mem_seek (64, region5) (- (2 ^ 63)) SDL_IO_SEEK_SET world0)) = 5
   \<and> sint (mem_size (64, region5)) = 5
   \<and> max 0 (min (sint (mem_size (64, region5))) (0 + sint (- (2 ^ 63) :: Sint64))) = 0"
  by (simp add: region5_def)

section \<open>Opening and closing\<close>

lemma SDL_OpenIO_Some:
  assumes "SDL_OpenIO i u w = (Some s, w')"
  shows "iface s = zero_iface" "userdata s = u" "status s = SDL_IO_STATUS_READY"
  using assms
  by (auto simp: SDL_OpenIO_def split: option.splits if_splits prod.splits)

lemma SDL_CloseIO_no_close:
  "close_fn (iface s) = None \<Longrightarrow> SDL_CloseIO (Some s) w = (True, SDL_free (self s) w)"
  by (simp add: SDL_CloseIO_def)

lemma zero_iface_close: "close_fn zero_iface = None"
  by (simp add: zero_iface_def)

lemma IOFromFD_iface:
  "SDL_IOFromFD fd_arg ac w = (Some s, w') \<Longrightarrow> iface s = zero_iface"
  by (auto simp: SDL_IOFromFD_def Let_def split: prod.splits if_splits option.splits
      dest: SDL_OpenIO_Some)

lemma IOFromFP_iface:
  "SDL_IOFromFP fp_arg ac w = (Some s, w') \<Longrightarrow> iface s = zero_iface"
  by (auto simp: SDL_IOFromFP_def Let_def split: prod.splits if_splits option.splits
      dest: SDL_OpenIO_Some)

lemma IOFromMem_iface:
  "SDL_IOFromMem m sz w = (Some s, w') \<Longrightarrow> iface s = zero_iface"
  by (auto simp: SDL_IOFromMem_def Let_def split: prod.splits if_splits option.splits
      dest: SDL_OpenIO_Some)

lemma IOFromConstMem_iface:
  "SDL_IOFromConstMem m sz w = (Some s, w') \<Longrightarrow> iface s = zero_iface"
  by (auto simp: SDL_IOFromConstMem_def Let_def split: prod.splits if_splits option.splits
      dest: SDL_OpenIO_Some)

lemma IOFromDynamicMem_iface:
  "SDL_IOFromDynamicMem w = (Some s, w') \<Longrightarrow> iface s = zero_iface"
  by (auto simp: SDL_IOFromDynamicMem_def Let_def split: prod.splits if_splits option.splits
      dest: SDL_OpenIO_Some)

lemmas ctor_eval = world_alloc_def world0_def SDL_calloc_def SDL_malloc_def
      next_answer_def os_call_def SDL_OpenIO_def Let_def zero_iface_def
      sizeof_SDL_IOStreamInterface_def SDL_GetIOProperties_def set_memory_props_def

text \<open>
  C1 (the code departs from the claim). Whatever constructor returned the
  handle, the stream's interface holds no close capability, because
  \<open>SDL_OpenIO\<close> leaves the interface zeroed: \<open>SDL_CloseIO\<close> returns true and
  releases the stream's own block only. The backend's close function is never
  called.
\<close>

theorem constructed_handle_close_skips_backend:
  "(SDL_IOFromFD fd_arg ac w = (Some sa, wa) \<longrightarrow>
      close_fn (iface sa) = None \<and> SDL_CloseIO (Some sa) wa = (True, SDL_free (self sa) wa))
 \<and> (SDL_IOFromFP fp_arg ac w = (Some sb, wb) \<longrightarrow>
      close_fn (iface sb) = None \<and> SDL_CloseIO (Some sb) wb = (True, SDL_free (self sb) wb))
 \<and> (SDL_IOFromMem m sz w = (Some sc, wc) \<longrightarrow>
      close_fn (iface sc) = None \<and> SDL_CloseIO (Some sc) wc = (True, SDL_free (self sc) wc))
 \<and> (SDL_IOFromConstMem m sz w = (Some sd, wd) \<longrightarrow>
      close_fn (iface sd) = None \<and> SDL_CloseIO (Some sd) wd = (True, SDL_free (self sd) wd))
 \<and> (SDL_IOFromDynamicMem w = (Some se, we) \<longrightarrow>
      close_fn (iface se) = None \<and> SDL_CloseIO (Some se) we = (True, SDL_free (self se) we))"
  by (auto simp: SDL_CloseIO_no_close zero_iface_close
      dest!: IOFromFD_iface IOFromFP_iface IOFromMem_iface IOFromConstMem_iface
        IOFromDynamicMem_iface)

text \<open>
  At concrete handles: after \<open>SDL_CloseIO\<close> the backend's bookkeeping block (at
  address 64) is still live, and the descriptor or file opened with
  \<^verbatim>\<open>autoclose\<close> was never closed.
\<close>

theorem constructed_handle_close_skips_backend_witness:
  "(case SDL_IOFromFD 3 True world_alloc of (h, w') \<Rightarrow>
      h \<noteq> None \<and> fst (SDL_CloseIO h w') \<and> blocks (snd (SDL_CloseIO h w')) 64 \<noteq> None
      \<and> closed_fds (snd (SDL_CloseIO h w')) = [])
 \<and> (case SDL_IOFromFP 8192 True world_alloc of (h, w') \<Rightarrow>
      h \<noteq> None \<and> fst (SDL_CloseIO h w') \<and> blocks (snd (SDL_CloseIO h w')) 64 \<noteq> None
      \<and> closed_files (snd (SDL_CloseIO h w')) = [])
 \<and> (case SDL_IOFromMem 4096 5 world_alloc of (h, w') \<Rightarrow>
      h \<noteq> None \<and> fst (SDL_CloseIO h w') \<and> blocks (snd (SDL_CloseIO h w')) 64 \<noteq> None)
 \<and> (case SDL_IOFromConstMem 4096 5 world_alloc of (h, w') \<Rightarrow>
      h \<noteq> None \<and> fst (SDL_CloseIO h w') \<and> blocks (snd (SDL_CloseIO h w')) 64 \<noteq> None)
 \<and> (case SDL_IOFromDynamicMem world_alloc of (h, w') \<Rightarrow>
      h \<noteq> None \<and> fst (SDL_CloseIO h w') \<and> blocks (snd (SDL_CloseIO h w')) 64 \<noteq> None)"
proof -
  obtain sa wa where a: "SDL_IOFromFD 3 True world_alloc = (Some sa, wa)"
    and a': "self sa = 128" "blocks wa 64 \<noteq> None" "closed_fds wa = []"
    by (simp add: SDL_IOFromFD_def ctor_eval)
  obtain sb wb where b: "SDL_IOFromFP 8192 True world_alloc = (Some sb, wb)"
    and b': "self sb = 128" "blocks wb 64 \<noteq> None" "closed_files wb = []"
    by (simp add: SDL_IOFromFP_def ctor_eval)
  obtain sc wc where c: "SDL_IOFromMem 4096 5 world_alloc = (Some sc, wc)"
    and c': "self sc = 128" "blocks wc 64 \<noteq> None"
    by (simp add: SDL_IOFromMem_def ctor_eval)
  obtain sd wd where d: "SDL_IOFromConstMem 4096 5 world_alloc = (Some sd, wd)"
    and d': "self sd = 128" "blocks wd 64 \<noteq> None"
    by (simp add: SDL_IOFromConstMem_def ctor_eval)
  obtain se we where e: "SDL_IOFromDynamicMem world_alloc = (Some se, we)"
    and e': "self se = 128" "blocks we 64 \<noteq> None"
    by (simp add: SDL_IOFromDynamicMem_def ctor_eval)
  note t = constructed_handle_close_skips_backend[where fd_arg = 3 and ac = True
      and w = world_alloc and fp_arg = 8192 and m = 4096 and sz = 5
      and sa = sa and wa = wa and sb = sb and wb = wb and sc = sc and wc = wc
      and sd = sd and wd = wd and se = se and we = we]
  show ?thesis
    using t a a' b b' c c' d d' e e' by (simp add: SDL_free_def)
qed

section \<open>Status after a transfer of zero bytes\<close>

text \<open>
  C6. For a stream with a read capability, when the backend's read, called
  for at least one byte, delivers no byte and leaves the status \<open>READY\<close>,
  \<open>SDL_ReadIO\<close> sets the status to \<open>ERROR\<close> if an error message is set and to
  \<open>EOF\<close> otherwise (the message was cleared before the call, so a message
  was set by the backend). For a stream with a write capability, when the
  backend's write of at least one byte accepts none and leaves the status
  \<open>READY\<close>, \<open>SDL_WriteIO\<close> sets the status to \<open>ERROR\<close>.
\<close>

theorem zero_read_write_reclassified:
  "(read_fn (iface s) = Some rd \<and> 0 < sz
      \<and> rd (userdata s) sz SDL_IO_STATUS_READY (SDL_ClearError w) = ([], u, SDL_IO_STATUS_READY, wa)
    \<longrightarrow> SDL_ReadIO (Some s) sz w =
          ([], Some (s\<lparr>userdata := u,
                       status := (if SDL_GetError wa \<noteq> [] then SDL_IO_STATUS_ERROR
                                  else SDL_IO_STATUS_EOF)\<rparr>), wa))
 \<and> (write_fn (iface s) = Some wr \<and> buf \<noteq> []
      \<and> wr (userdata s) buf SDL_IO_STATUS_READY (SDL_ClearError w) = (0, ub, SDL_IO_STATUS_READY, wb)
    \<longrightarrow> SDL_WriteIO (Some s) buf w =
          (0, Some (s\<lparr>userdata := ub, status := SDL_IO_STATUS_ERROR\<rparr>), wb))"
  by (simp add: SDL_ReadIO_def SDL_WriteIO_def Let_def)

theorem zero_read_write_reclassified_witness:
  "SDL_ReadIO (Some mem_stream_at_end) 2 world0 =
     ([], Some (mem_stream_at_end\<lparr>status := SDL_IO_STATUS_EOF\<rparr>), world0)
   \<and> SDL_WriteIO (Some mem_stream_at_end) [1] world0 =
     (0, Some (mem_stream_at_end\<lparr>status := SDL_IO_STATUS_ERROR\<rparr>), world0)
   \<and> status (the (fst (snd (SDL_ReadIO (Some fd_stream) 2 world_read_error))))
       = SDL_IO_STATUS_ERROR"
proof -
  have c: "SDL_ClearError world0 = world0"
    by (simp add: SDL_ClearError_def world0_def)
  have ra: "read_fn (iface mem_stream_at_end) = Some mem_read \<and> 0 < (2::nat)
      \<and> mem_read (userdata mem_stream_at_end) 2 SDL_IO_STATUS_READY (SDL_ClearError world0)
          = ([], userdata mem_stream_at_end, SDL_IO_STATUS_READY, world0)"
    unfolding c by (simp add: mem_stream_at_end_def load_def)
  have wa: "write_fn (iface mem_stream_at_end) = Some mem_write \<and> [1] \<noteq> ([] :: Uint8 list)
      \<and> mem_write (userdata mem_stream_at_end) [1] SDL_IO_STATUS_READY (SDL_ClearError world0)
          = (0, userdata mem_stream_at_end, SDL_IO_STATUS_READY, world0)"
    unfolding c by (simp add: mem_stream_at_end_def store_def world0_def)
  have rb: "read_fn (iface fd_stream) = Some fd_read \<and> 0 < (2::nat)
      \<and> fd_read (userdata fd_stream) 2 SDL_IO_STATUS_READY (SDL_ClearError world_read_error)
          = ([], userdata fd_stream, SDL_IO_STATUS_READY,
             world0\<lparr>error_msg := ''Error reading from datastream: Input/output error''\<rparr>)"
    by (simp add: fd_stream_def world_read_error_def world0_def SDL_ClearError_def
        os_call_retry_def SDL_SetError_def strerror_def)
  note t = zero_read_write_reclassified[where s = mem_stream_at_end and rd = mem_read
      and sz = 2 and w = world0 and u = "userdata mem_stream_at_end" and wa = world0
      and wr = mem_write and buf = "[1]" and ub = "userdata mem_stream_at_end" and wb = world0]
  note tb = zero_read_write_reclassified[where s = fd_stream and rd = fd_read and sz = 2
      and w = world_read_error and u = "userdata fd_stream"
      and wa = "world0\<lparr>error_msg := ''Error reading from datastream: Input/output error''\<rparr>"]
  have "SDL_ReadIO (Some mem_stream_at_end) 2 world0 =
     ([], Some (mem_stream_at_end\<lparr>status := SDL_IO_STATUS_EOF\<rparr>), world0)"
    using t[THEN conjunct1, rule_format, OF ra]
    by (simp add: SDL_GetError_def world0_def)
  moreover have "SDL_WriteIO (Some mem_stream_at_end) [1] world0 =
     (0, Some (mem_stream_at_end\<lparr>status := SDL_IO_STATUS_ERROR\<rparr>), world0)"
    using t[THEN conjunct2, rule_format, OF wa] by simp
  moreover have "status (the (fst (snd (SDL_ReadIO (Some fd_stream) 2 world_read_error))))
       = SDL_IO_STATUS_ERROR"
    using tb[THEN conjunct1, rule_format, OF rb] by (simp add: SDL_GetError_def)
  ultimately show ?thesis by simp
qed

section \<open>Constructors of the fixed-memory backend\<close>

text \<open>
  C10. \<open>SDL_IOFromMem\<close> and \<open>SDL_IOFromConstMem\<close> return the null handle, after
  setting an invalid-parameter error, when the memory pointer is null or the
  size is zero; so a handle they return wraps the region \<open>[m, m + sz)\<close> with
  \<open>sz \<noteq> 0\<close>.
\<close>

theorem fixed_memory_constructors_reject_empty:
  "(m = 0 \<longrightarrow> SDL_IOFromMem m sz w = (None, SDL_InvalidParamError ''mem'' w)
            \<and> SDL_IOFromConstMem m sz w = (None, SDL_InvalidParamError ''mem'' w))
 \<and> (m \<noteq> 0 \<and> sz = 0 \<longrightarrow> SDL_IOFromMem m sz w = (None, SDL_InvalidParamError ''size'' w)
            \<and> SDL_IOFromConstMem m sz w = (None, SDL_InvalidParamError ''size'' w))
 \<and> SDL_GetError (SDL_InvalidParamError ''mem'' w) \<noteq> []
 \<and> SDL_GetError (SDL_InvalidParamError ''size'' w) \<noteq> []
 \<and> (SDL_IOFromMem m sz w = (Some s, w') \<or> SDL_IOFromConstMem m sz w = (Some s, w') \<longrightarrow>
       m \<noteq> 0 \<and> sz \<noteq> 0 \<and> base (snd (userdata s)) = m \<and> here (snd (userdata s)) = m
       \<and> stop (snd (userdata s)) = m + sz \<and> mem_size (userdata s) = sz
       \<and> mem_size (userdata s) \<noteq> 0)"
proof -
  have a: "SDL_IOFromMem m sz w = (Some s, w') \<Longrightarrow> m \<noteq> 0 \<and> sz \<noteq> 0
      \<and> userdata s = (fst (userdata s), \<lparr>base = m, here = m, stop = m + sz\<rparr>)"
    by (auto simp: SDL_IOFromMem_def Let_def split: prod.splits if_splits option.splits
        dest: SDL_OpenIO_Some)
  have b: "SDL_IOFromConstMem m sz w = (Some s, w') \<Longrightarrow> m \<noteq> 0 \<and> sz \<noteq> 0
      \<and> userdata s = (fst (userdata s), \<lparr>base = m, here = m, stop = m + sz\<rparr>)"
    by (auto simp: SDL_IOFromConstMem_def Let_def split: prod.splits if_splits option.splits
        dest: SDL_OpenIO_Some)
  have c: "userdata s = (fst (userdata s), \<lparr>base = m, here = m, stop = m + sz\<rparr>) \<Longrightarrow>
      base (snd (userdata s)) = m \<and> here (snd (userdata s)) = m
       \<and> stop (snd (userdata s)) = m + sz \<and> mem_size (userdata s) = sz"
    by (metis IOStreamMemData.select_convs(1,2,3) snd_conv mem_size.simps add_diff_cancel_left')
  have e: "SDL_GetError (SDL_InvalidParamError p w) \<noteq> []" for p
    by (simp add: SDL_GetError_def SDL_InvalidParamError_def SDL_SetError_def quoted_def)
  have n: "m = 0 \<Longrightarrow> SDL_IOFromMem m sz w = (None, SDL_InvalidParamError ''mem'' w)
            \<and> SDL_IOFromConstMem m sz w = (None, SDL_InvalidParamError ''mem'' w)"
    by (simp add: SDL_IOFromMem_def SDL_IOFromConstMem_def)
  have z: "m \<noteq> 0 \<and> sz = 0 \<Longrightarrow> SDL_IOFromMem m sz w = (None, SDL_InvalidParamError ''size'' w)
            \<and> SDL_IOFromConstMem m sz w = (None, SDL_InvalidParamError ''size'' w)"
    by (simp add: SDL_IOFromMem_def SDL_IOFromConstMem_def)
  show ?thesis
    using a b c e n z by blast
qed

theorem fixed_memory_constructors_reject_empty_witness:
  "SDL_IOFromMem 0 5 world_alloc = (None, SDL_InvalidParamError ''mem'' world_alloc)
   \<and> SDL_IOFromConstMem 4096 0 world_alloc = (None, SDL_InvalidParamError ''size'' world_alloc)
   \<and> fst (SDL_IOFromMem 4096 5 world_alloc) \<noteq> None
   \<and> mem_size (userdata (the (fst (SDL_IOFromMem 4096 5 world_alloc)))) = 5"
proof -
  obtain s w' where r: "SDL_IOFromMem 4096 5 world_alloc = (Some s, w')"
    by (simp add: SDL_IOFromMem_def ctor_eval)
  note ta = fixed_memory_constructors_reject_empty[where m = 0 and sz = 5 and w = world_alloc]
  note tb = fixed_memory_constructors_reject_empty[where m = 4096 and sz = 0 and w = world_alloc]
  note tc = fixed_memory_constructors_reject_empty[where m = 4096 and sz = 5
      and w = world_alloc and s = s and w' = w']
  have "SDL_IOFromMem 0 5 world_alloc = (None, SDL_InvalidParamError ''mem'' world_alloc)"
    using ta by blast
  moreover have "SDL_IOFromConstMem 4096 0 world_alloc
      = (None, SDL_InvalidParamError ''size'' world_alloc)"
    using tb by simp
  moreover have "mem_size (userdata s) = 5"
    using tc r by blast
  ultimately show ?thesis by (simp add: r)
qed

section \<open>Short reads in the endian codec\<close>

lemma stored_Nil: "stored [] obj = obj"
  by (simp add: stored_def)

lemma swap0: "SDL_Swap16 0 = 0" "SDL_Swap32 0 = 0" "SDL_Swap64 0 = 0"
  by (simp_all add: SDL_Swap16_def SDL_Swap32_def SDL_Swap64_def)

lemma hw0:
  "host_word host [0] = 0" "host_word host [0, 0] = 0" "host_word host [0, 0, 0, 0] = 0"
  "host_word host [0, 0, 0, 0, 0, 0, 0, 0] = 0"
  by (cases host; simp add: host_word_def)+

text \<open>
  C9, as the code has it. When the one \<open>SDL_ReadIO\<close> call of a codec read
  function delivers fewer bytes than the width, the function returns false.
  The value it stores is the swap, applied unconditionally, of the
  zero-initialised word in which the delivered bytes were stored: it is zero
  when the call delivered no byte, which is the only short read of the 8-bit
  function.
\<close>

theorem short_read_codec:
  "(SDL_ReadIO src 1 w = (ba, sa, wa) \<and> length ba < 1 \<longrightarrow>
      SDL_ReadU8Ptr host src w = (False, 0, sa, wa))
 \<and> (SDL_ReadIO src 2 w = (bb, sb, wb) \<and> length bb < 2 \<longrightarrow>
      SDL_ReadU16LE host src w =
        (False, SDL_SwapLE16 host (host_word host (stored bb [0, 0])), sb, wb)
    \<and> SDL_ReadU16BE host src w =
        (False, SDL_SwapBE16 host (host_word host (stored bb [0, 0])), sb, wb)
    \<and> (bb = [] \<longrightarrow> fst (snd (SDL_ReadU16LE host src w)) = 0
                  \<and> fst (snd (SDL_ReadU16BE host src w)) = 0))
 \<and> (SDL_ReadIO src 4 w = (bc, sc, wc) \<and> length bc < 4 \<longrightarrow>
      SDL_ReadU32LE host src w =
        (False, SDL_SwapLE32 host (host_word host (stored bc [0, 0, 0, 0])), sc, wc)
    \<and> SDL_ReadU32BE host src w =
        (False, SDL_SwapBE32 host (host_word host (stored bc [0, 0, 0, 0])), sc, wc)
    \<and> (bc = [] \<longrightarrow> fst (snd (SDL_ReadU32LE host src w)) = 0
                  \<and> fst (snd (SDL_ReadU32BE host src w)) = 0))
 \<and> (SDL_ReadIO src 8 w = (bd, sd, wd) \<and> length bd < 8 \<longrightarrow>
      SDL_ReadU64LE host src w =
        (False, SDL_SwapLE64 host (host_word host (stored bd [0, 0, 0, 0, 0, 0, 0, 0])), sd, wd)
    \<and> SDL_ReadU64BE host src w =
        (False, SDL_SwapBE64 host (host_word host (stored bd [0, 0, 0, 0, 0, 0, 0, 0])), sd, wd)
    \<and> (bd = [] \<longrightarrow> fst (snd (SDL_ReadU64LE host src w)) = 0
                  \<and> fst (snd (SDL_ReadU64BE host src w)) = 0))"
proof -
  have a: "SDL_ReadIO src 1 w = (ba, sa, wa) \<and> length ba < 1 \<longrightarrow>
      SDL_ReadU8Ptr host src w = (False, 0, sa, wa)"
    by (auto simp: SDL_ReadU8Ptr_def stored_Nil hw0)
  have b: "SDL_ReadIO src 2 w = (bb, sb, wb) \<and> length bb < 2 \<longrightarrow>
      SDL_ReadU16LE host src w =
        (False, SDL_SwapLE16 host (host_word host (stored bb [0, 0])), sb, wb)
    \<and> SDL_ReadU16BE host src w =
        (False, SDL_SwapBE16 host (host_word host (stored bb [0, 0])), sb, wb)
    \<and> (bb = [] \<longrightarrow> fst (snd (SDL_ReadU16LE host src w)) = 0
                  \<and> fst (snd (SDL_ReadU16BE host src w)) = 0)"
    by (auto simp: SDL_ReadU16LE_def SDL_ReadU16BE_def stored_Nil hw0 swap0
        SDL_SwapLE16_def SDL_SwapBE16_def)
  have c: "SDL_ReadIO src 4 w = (bc, sc, wc) \<and> length bc < 4 \<longrightarrow>
      SDL_ReadU32LE host src w =
        (False, SDL_SwapLE32 host (host_word host (stored bc [0, 0, 0, 0])), sc, wc)
    \<and> SDL_ReadU32BE host src w =
        (False, SDL_SwapBE32 host (host_word host (stored bc [0, 0, 0, 0])), sc, wc)
    \<and> (bc = [] \<longrightarrow> fst (snd (SDL_ReadU32LE host src w)) = 0
                  \<and> fst (snd (SDL_ReadU32BE host src w)) = 0)"
    by (auto simp: SDL_ReadU32LE_def SDL_ReadU32BE_def stored_Nil hw0 swap0
        SDL_SwapLE32_def SDL_SwapBE32_def)
  have d: "SDL_ReadIO src 8 w = (bd, sd, wd) \<and> length bd < 8 \<longrightarrow>
      SDL_ReadU64LE host src w =
        (False, SDL_SwapLE64 host (host_word host (stored bd [0, 0, 0, 0, 0, 0, 0, 0])), sd, wd)
    \<and> SDL_ReadU64BE host src w =
        (False, SDL_SwapBE64 host (host_word host (stored bd [0, 0, 0, 0, 0, 0, 0, 0])), sd, wd)
    \<and> (bd = [] \<longrightarrow> fst (snd (SDL_ReadU64LE host src w)) = 0
                  \<and> fst (snd (SDL_ReadU64BE host src w)) = 0)"
    by (auto simp: SDL_ReadU64LE_def SDL_ReadU64BE_def stored_Nil hw0 swap0
        SDL_SwapLE64_def SDL_SwapBE64_def)
  show ?thesis using a b c d by blast
qed

lemma read_one_left:
  "SDL_ReadIO (Some mem_stream_one_left) 2 world_ab =
     ([0xAB], Some (mem_stream_one_left\<lparr>userdata := (64, \<lparr>base = 4096, here = 4101, stop = 4101\<rparr>)\<rparr>),
      world_ab)"
  by (simp add: SDL_ReadIO_def mem_stream_one_left_def world_ab_def world0_def zero_iface_def
      SDL_ClearError_def Let_def load_def)

lemma read_at_end:
  "0 < n \<Longrightarrow> SDL_ReadIO (Some mem_stream_at_end) n world0 =
     ([], Some (mem_stream_at_end\<lparr>status := SDL_IO_STATUS_EOF\<rparr>), world0)"
  by (simp add: SDL_ReadIO_def mem_stream_at_end_def world0_def zero_iface_def
      SDL_ClearError_def SDL_GetError_def Let_def load_def)

theorem short_read_codec_witness:
  "SDL_ReadU8Ptr SDL_LIL_ENDIAN (Some mem_stream_at_end) world0 =
     (False, 0, Some (mem_stream_at_end\<lparr>status := SDL_IO_STATUS_EOF\<rparr>), world0)
 \<and> fst (snd (SDL_ReadU16LE SDL_LIL_ENDIAN (Some mem_stream_at_end) world0)) = 0
 \<and> fst (snd (SDL_ReadU32BE SDL_LIL_ENDIAN (Some mem_stream_at_end) world0)) = 0
 \<and> fst (snd (SDL_ReadU64LE SDL_LIL_ENDIAN (Some mem_stream_at_end) world0)) = 0
 \<and> \<not> fst (SDL_ReadU16LE SDL_LIL_ENDIAN (Some mem_stream_one_left) world_ab)
 \<and> \<not> fst (SDL_ReadU32LE SDL_LIL_ENDIAN (Some mem_stream_one_left) world_ab)"
proof -
  let ?e = "Some (mem_stream_at_end\<lparr>status := SDL_IO_STATUS_EOF\<rparr>)"
  note t = short_read_codec[where src = "Some mem_stream_at_end" and w = world0
      and host = SDL_LIL_ENDIAN
      and ba = "[]" and sa = ?e and wa = world0 and bb = "[]" and sb = ?e and wb = world0
      and bc = "[]" and sc = ?e and wc = world0 and bd = "[]" and sd = ?e and wd = world0]
  have r4: "SDL_ReadIO (Some mem_stream_one_left) 4 world_ab =
     ([0xAB], Some (mem_stream_one_left\<lparr>userdata := (64, \<lparr>base = 4096, here = 4101, stop = 4101\<rparr>)\<rparr>),
      world_ab)"
    by (simp add: SDL_ReadIO_def mem_stream_one_left_def world_ab_def world0_def zero_iface_def
      SDL_ClearError_def Let_def load_def)
  note u = short_read_codec[where src = "Some mem_stream_one_left" and w = world_ab
      and host = SDL_LIL_ENDIAN and bb = "[0xAB]"
      and sb = "Some (mem_stream_one_left\<lparr>userdata :=
                  (64, \<lparr>base = 4096, here = 4101, stop = 4101\<rparr>)\<rparr>)"
      and wb = world_ab and bc = "[0xAB]"
      and sc = "Some (mem_stream_one_left\<lparr>userdata :=
                  (64, \<lparr>base = 4096, here = 4101, stop = 4101\<rparr>)\<rparr>)"
      and wc = world_ab]
  note cz = stored_Nil hw0 swap0 SDL_SwapLE16_def SDL_SwapBE16_def SDL_SwapLE32_def
    SDL_SwapBE32_def SDL_SwapLE64_def SDL_SwapBE64_def
  note re = read_at_end[of 1] read_at_end[of 2] read_at_end[of 4] read_at_end[of 8]
  have a: "SDL_ReadU8Ptr SDL_LIL_ENDIAN (Some mem_stream_at_end) world0 =
     (False, 0, ?e, world0)"
    using t re by (simp add: cz)
  have b: "fst (snd (SDL_ReadU16LE SDL_LIL_ENDIAN (Some mem_stream_at_end) world0)) = 0"
    using t re by (simp add: cz)
  have c: "fst (snd (SDL_ReadU32BE SDL_LIL_ENDIAN (Some mem_stream_at_end) world0)) = 0"
    using t re by (simp add: cz)
  have d: "fst (snd (SDL_ReadU64LE SDL_LIL_ENDIAN (Some mem_stream_at_end) world0)) = 0"
    using t re by (simp add: cz)
  have e: "\<not> fst (SDL_ReadU16LE SDL_LIL_ENDIAN (Some mem_stream_one_left) world_ab)"
    using u read_one_left by simp
  have f: "\<not> fst (SDL_ReadU32LE SDL_LIL_ENDIAN (Some mem_stream_one_left) world_ab)"
    using u r4 by simp
  show ?thesis using a b c d e f by simp
qed

text \<open>
  After a partial read the value is not zero: with one byte \<open>0xAB\<close> left in the
  stream, the 16-bit little-endian read returns false and stores \<open>0xAB\<close>, on a
  host of either byte order; the big-endian read stores \<open>0xAB00\<close>.
\<close>

theorem short_read_codec_counterexample:
  "SDL_ReadU16LE SDL_LIL_ENDIAN (Some mem_stream_one_left) world_ab =
     (False, 0xAB,
      Some (mem_stream_one_left\<lparr>userdata := (64, \<lparr>base = 4096, here = 4101, stop = 4101\<rparr>)\<rparr>),
      world_ab)
   \<and> fst (snd (SDL_ReadU16LE SDL_BIG_ENDIAN (Some mem_stream_one_left) world_ab)) = 0xAB
   \<and> fst (snd (SDL_ReadU16BE SDL_LIL_ENDIAN (Some mem_stream_one_left) world_ab)) = 0xAB00
   \<and> (0xAB :: 16 word) \<noteq> 0"
  by (simp add: SDL_ReadU16LE_def SDL_ReadU16BE_def read_one_left stored_def host_word_def
      SDL_SwapLE16_def SDL_SwapBE16_def SDL_Swap16_def)

section \<open>Growth of the growable backend\<close>

lemma least_multiple:
  fixes c n :: nat
  assumes "0 < c"
  shows "c dvd (n div c + 1) * c" "n + 1 \<le> (n div c + 1) * c"
    "\<forall>m. c dvd m \<and> n + 1 \<le> m \<longrightarrow> (n div c + 1) * c \<le> m"
proof -
  show "c dvd (n div c + 1) * c" by simp
  have "n < (n div c + 1) * c"
    using assms by (metis Suc_eq_plus1 dividend_less_div_times mult.commute mult_Suc)
  then show "n + 1 \<le> (n div c + 1) * c" by simp
  show "\<forall>m. c dvd m \<and> n + 1 \<le> m \<longrightarrow> (n div c + 1) * c \<le> m"
  proof (intro allI impI)
    fix m assume h: "c dvd m \<and> n + 1 \<le> m"
    then obtain k where k: "m = c * k" by (auto simp: dvd_def)
    have "n < c * k" using h k by simp
    then have "n div c < k" using assms
      by (simp add: div_less_iff_less_mult mult.commute)
    then have "n div c + 1 \<le> k" by simp
    then have "(n div c + 1) * c \<le> k * c" by (rule mult_le_mono1)
    then show "(n div c + 1) * c \<le> m" using k by (simp add: mult.commute)
  qed
qed

lemma unat_length0:
  fixes cap chunk :: size_t
  assumes c0: "chunk \<noteq> 0" and nov: "unat cap + sz + unat chunk < 2 ^ 64"
  shows "unat (((cap + of_nat sz) div chunk + 1) * chunk)
         = ((unat cap + sz) div unat chunk + 1) * unat chunk"
proof -
  have cpos: "0 < unat chunk" using c0 by (simp add: unat_gt_0)
  have s: "sz < 2 ^ 64" using nov by simp
  have u1: "unat (of_nat sz :: size_t) = sz" using s by (simp add: unat_of_nat)
  have u2: "unat (cap + of_nat sz) = unat cap + sz"
    using nov u1 by (simp add: unat_add_lem[THEN iffD1])
  have u3: "unat ((cap + of_nat sz) div chunk) = (unat cap + sz) div unat chunk"
    by (simp add: unat_div u2)
  have le: "(unat cap + sz) div unat chunk * unat chunk \<le> unat cap + sz"
    by simp
  have u4: "unat ((cap + of_nat sz) div chunk + 1) = (unat cap + sz) div unat chunk + 1"
  proof -
    have d: "(unat cap + sz) div unat chunk \<le> unat cap + sz" by (rule div_le_dividend)
    have "(unat cap + sz) div unat chunk + 1 < 2 ^ 64"
      using d nov cpos by linarith
    then have "unat ((cap + of_nat sz) div chunk) + unat (1 :: size_t) < 2 ^ 64"
      using u3 by simp
    then show ?thesis using u3 by (simp add: unat_add_lem[THEN iffD1])
  qed
  have b: "((unat cap + sz) div unat chunk + 1) * unat chunk \<le> unat cap + sz + unat chunk"
    using le by (simp add: algebra_simps)
  have "((unat cap + sz) div unat chunk + 1) * unat chunk < 2 ^ 64"
    using b nov by linarith
  then have "unat ((cap + of_nat sz) div chunk + 1) * unat chunk < 2 ^ 64"
    by (simp only: u4)
  then show ?thesis using u4 by (simp add: unat_mult_lem[THEN iffD1])
qed

lemma chunk_word_nz: "chunk_word s w \<noteq> 0"
  by (simp add: chunk_word_def)

lemma realloc_length:
  assumes "capacity iodata + sz + chunk_of (stream iodata) w < 2 ^ 64"
  shows "unat ((((end_ptr iodata - base (data iodata)) + of_nat sz) div chunk_word (stream iodata) w + 1)
              * chunk_word (stream iodata) w) = grown_length iodata sz w"
  using unat_length0[OF chunk_word_nz, of "end_ptr iodata - base (data iodata)" sz "stream iodata" w]
    assms
  by (simp add: grown_length_def capacity_def chunk_of_def)

lemma dynamic_mem_realloc_unfold:
  "dynamic_mem_realloc (p, iodata) sz w =
     (let length0 = (((end_ptr iodata - base (data iodata)) + of_nat sz)
                      div chunk_word (stream iodata) w + 1) * chunk_word (stream iodata) w
      in case SDL_realloc (base (data iodata)) (unat length0) w of (base1, w1) \<Rightarrow>
           if base1 = 0 then (False, (p, iodata), w1)
           else
             let w2 = w1\<lparr>mem := relocate (mem w1) (base (data iodata)) base1
                                   (min (capacity iodata) (unat length0))\<rparr>;
                 iodata1 = iodata\<lparr>data := \<lparr>base = base1,
                                              here = base1 + (here (data iodata) - base (data iodata)),
                                              stop = base1 + (stop (data iodata) - base (data iodata))\<rparr>,
                                   end_ptr := base1 + length0\<rparr>;
                 w3 = w2\<lparr>props := (props w2)(stream iodata :=
                            (props w2 (stream iodata))\<lparr>memoryPtr := base1\<rparr>)\<rparr>
             in (indeterminate w3, (p, iodata1), w3))"
  by (simp add: Let_def chunk_word_def capacity_def SDL_GetIOProperties_def
      SDL_realloc_def next_answer_def split: prod.splits list.splits)

text \<open>
  C4, as the code has it. When the allocator answers \<open>a\<close> and the arithmetic
  does not overflow, \<open>dynamic_mem_realloc\<close> for \<open>sz\<close> more bytes requests
  \<open>grown_length\<close> bytes: the least multiple of the chunk size (1024 when the
  property is unset) that covers the current length of the allocation,
  \<open>capacity\<close>, plus \<open>sz\<close> plus one; not the length of the content, \<open>stop - base\<close>.
  If \<open>a\<close> is not null, the new \<open>base\<close> is \<open>a\<close>, the cursor and \<open>stop\<close> keep their
  offsets from \<open>base\<close>, \<open>end\<close> is \<open>a\<close> plus the new length, the old contents are
  moved and the stream's \<^verbatim>\<open>memoryPtr\<close> property is \<open>a\<close>; the value returned is
  indeterminate. If \<open>a\<close> is null, the function returns false and nothing
  changes.
\<close>

theorem growable_realloc_length:
  fixes iodata :: IOStreamDynamicMemData
  assumes "allocator w = a # rest"
    and "capacity iodata + sz + chunk_of (stream iodata) w < 2 ^ 64"
  shows "(a \<noteq> 0 \<longrightarrow>
          dynamic_mem_realloc (p, iodata) sz w =
            (indeterminate w,
             (p, iodata\<lparr>data := \<lparr>base = a,
                                   here = a + (here (data iodata) - base (data iodata)),
                                   stop = a + (stop (data iodata) - base (data iodata))\<rparr>,
                        end_ptr := a + of_nat (grown_length iodata sz w)\<rparr>),
             w\<lparr>allocator := rest,
               blocks := ((blocks w)(base (data iodata) := None))(a \<mapsto> grown_length iodata sz w),
               mem := relocate (mem w) (base (data iodata)) a (capacity iodata),
               props := (props w)(stream iodata :=
                          (props w (stream iodata))\<lparr>memoryPtr := a\<rparr>)\<rparr>))
       \<and> (a = 0 \<longrightarrow>
          dynamic_mem_realloc (p, iodata) sz w = (False, (p, iodata), w\<lparr>allocator := rest\<rparr>))
       \<and> chunk_of (stream iodata) w dvd grown_length iodata sz w
       \<and> capacity iodata + sz + 1 \<le> grown_length iodata sz w
       \<and> (\<forall>m. chunk_of (stream iodata) w dvd m \<and> capacity iodata + sz + 1 \<le> m
              \<longrightarrow> grown_length iodata sz w \<le> m)
       \<and> (chunkSize (props w (stream iodata)) = 0 \<longrightarrow> chunk_of (stream iodata) w = 1024)"
proof -
  have cpos: "0 < chunk_of (stream iodata) w"
    using chunk_word_nz[of "stream iodata" w] by (simp add: chunk_of_def unat_gt_0)
  note lm = least_multiple[OF cpos, of "capacity iodata + sz"]
  note rl = realloc_length[OF assms(2)]
  have ge: "capacity iodata \<le> grown_length iodata sz w"
    using lm(2) by (simp add: grown_length_def)
  have ol: "of_nat (grown_length iodata sz w) =
      (((end_ptr iodata - base (data iodata)) + of_nat sz) div chunk_word (stream iodata) w + 1)
              * chunk_word (stream iodata) w"
    by (simp add: rl[symmetric])
  have s: "a \<noteq> 0 \<longrightarrow>
          dynamic_mem_realloc (p, iodata) sz w =
            (indeterminate w,
             (p, iodata\<lparr>data := \<lparr>base = a,
                                   here = a + (here (data iodata) - base (data iodata)),
                                   stop = a + (stop (data iodata) - base (data iodata))\<rparr>,
                        end_ptr := a + of_nat (grown_length iodata sz w)\<rparr>),
             w\<lparr>allocator := rest,
               blocks := ((blocks w)(base (data iodata) := None))(a \<mapsto> grown_length iodata sz w),
               mem := relocate (mem w) (base (data iodata)) a (capacity iodata),
               props := (props w)(stream iodata :=
                          (props w (stream iodata))\<lparr>memoryPtr := a\<rparr>)\<rparr>)"
    unfolding dynamic_mem_realloc_unfold ol
    using assms(1) ge rl
    by (simp add: Let_def SDL_realloc_def next_answer_def min_def)
  have f: "a = 0 \<longrightarrow>
          dynamic_mem_realloc (p, iodata) sz w = (False, (p, iodata), w\<lparr>allocator := rest\<rparr>)"
    unfolding dynamic_mem_realloc_unfold
    using assms(1) by (simp add: Let_def SDL_realloc_def next_answer_def)
  have d: "chunkSize (props w (stream iodata)) = 0 \<longrightarrow> chunk_of (stream iodata) w = 1024"
    by (simp add: chunk_of_def chunk_word_def)
  show ?thesis
    using s f d lm by (simp add: grown_length_def)
qed

lemma world_realloc_alloc: "allocator world_realloc = 8192 # []"
  by (simp add: world_realloc_def world0_def)

lemma grown10_facts:
  "capacity grown10 = 1024" "chunk_of (stream grown10) world_realloc = 1024"
  "chunk_of (stream grown10) world_no_memory = 1024"
  "grown_length grown10 1024 world_realloc = 3072"
  by (simp_all add: capacity_def grown10_def chunk_of_def chunk_word_def world_realloc_def
      world_no_memory_def world0_def zero_props_def grown_length_def)

theorem growable_realloc_length_witness:
  "fst (snd (dynamic_mem_realloc (64, grown10) 1024 world_realloc)) =
     (64, \<lparr>stream = 128, data = \<lparr>base = 8192, here = 8202, stop = 8202\<rparr>, end_ptr = 11264\<rparr>)
   \<and> blocks (snd (snd (dynamic_mem_realloc (64, grown10) 1024 world_realloc))) 8192 = Some 3072
   \<and> memoryPtr (props (snd (snd (dynamic_mem_realloc (64, grown10) 1024 world_realloc))) 128)
       = 8192
   \<and> dynamic_mem_realloc (64, grown10) 1024 world_no_memory =
       (False, (64, grown10), world_no_memory\<lparr>allocator := []\<rparr>)
   \<and> (1024 :: nat) dvd 3072 \<and> (1024 :: nat) + 1024 + 1 \<le> 3072"
proof -
  have n: "capacity grown10 + 1024 + chunk_of (stream grown10) world_realloc < 2 ^ 64"
    "capacity grown10 + 1024 + chunk_of (stream grown10) world_no_memory < 2 ^ 64"
    by (simp_all add: grown10_facts)
  have a0: "allocator world_no_memory = 0 # []"
    by (simp add: world_no_memory_def world0_def)
  note t = growable_realloc_length[OF world_realloc_alloc n(1), where p = 64]
  note u = growable_realloc_length[OF a0 n(2), where p = 64]
  have r: "dynamic_mem_realloc (64, grown10) 1024 world_realloc =
            (indeterminate world_realloc,
             (64, grown10\<lparr>data := \<lparr>base = 8192,
                                   here = 8192 + (here (data grown10) - base (data grown10)),
                                   stop = 8192 + (stop (data grown10) - base (data grown10))\<rparr>,
                        end_ptr := 8192 + of_nat (grown_length grown10 1024 world_realloc)\<rparr>),
             world_realloc\<lparr>allocator := [],
               blocks := ((blocks world_realloc)(base (data grown10) := None))
                           (8192 \<mapsto> grown_length grown10 1024 world_realloc),
               mem := relocate (mem world_realloc) (base (data grown10)) 8192 (capacity grown10),
               props := (props world_realloc)(stream grown10 :=
                          (props world_realloc (stream grown10))\<lparr>memoryPtr := 8192\<rparr>)\<rparr>)"
    using t by simp
  have f: "dynamic_mem_realloc (64, grown10) 1024 world_no_memory =
       (False, (64, grown10), world_no_memory\<lparr>allocator := []\<rparr>)"
    using u by simp
  show ?thesis
    unfolding r f by (simp add: grown10_facts) (simp add: grown10_def)
qed

text \<open>
  The length is not the least multiple covering the content's length: with 10
  bytes of content in an allocation of 1024 bytes and the cursor after them,
  a growth for 1024 more bytes (which do not fit) allocates 3072 bytes, where
  2048 is a multiple of the chunk size and covers \<open>10 + 1024 + 1\<close>.
\<close>

theorem growable_realloc_length_counterexample:
  "unat (stop (data grown10) - base (data grown10)) = 10
   \<and> 1024 > unat (end_ptr grown10 - here (data grown10))
   \<and> (case dynamic_mem_realloc (64, grown10) 1024 world_realloc of (ok, (p, d), w') \<Rightarrow>
         unat (end_ptr d - base (data d)) = 3072 \<and> blocks w' 8192 = Some 3072)
   \<and> (1024 :: nat) dvd 2048 \<and> (10 :: nat) + 1024 + 1 \<le> 2048 \<and> (2048 :: nat) < 3072"
  by (simp add: grown10_def world_realloc_def world0_def zero_props_def
      SDL_GetIOProperties_def SDL_realloc_def next_answer_def Let_def)

text \<open>
  C3 (the code departs from the claim). A write of one byte to a fresh
  growable backend requires a growth. The reallocation succeeds, and the
  write then tests the indeterminate result of \<open>dynamic_mem_realloc\<close>: when it
  reads as false, the write reports 0 bytes and stores nothing, although the
  backend's state has moved to the new allocation; when it reads as true, the
  byte is written.
\<close>

theorem growable_write_reports_zero_after_growth:
  "dynamic_mem_write (64, fresh_dynamic) [7] SDL_IO_STATUS_READY world_realloc =
     (0, (64, \<lparr>stream = 128, data = \<lparr>base = 8192, here = 8192, stop = 8192\<rparr>, end_ptr = 9216\<rparr>),
      SDL_IO_STATUS_READY,
      world_realloc\<lparr>allocator := [], blocks := (blocks world_realloc)(0 := None, 8192 \<mapsto> 1024),
        mem := relocate (mem world_realloc) 0 8192 0,
        props := (props world_realloc)(128 := zero_props\<lparr>memoryPtr := 8192\<rparr>)\<rparr>)
   \<and> fst (dynamic_mem_write (64, fresh_dynamic) [7] SDL_IO_STATUS_READY
            (world_realloc\<lparr>indeterminate := True\<rparr>)) = 1
   \<and> mem (snd (snd (snd (dynamic_mem_write (64, fresh_dynamic) [7] SDL_IO_STATUS_READY
            (world_realloc\<lparr>indeterminate := True\<rparr>))))) 8192 = 7"
  by (simp add: fresh_dynamic_def world_realloc_def world0_def zero_props_def
      SDL_GetIOProperties_def SDL_realloc_def next_answer_def Let_def store_def relocate_def)

section \<open>Saving a buffer\<close>

lemmas save_eval = SDL_SaveFile_IO_def SDL_WriteIO_def SDL_GetIOStatus_def fd_stream_def
  zero_iface_def world0_def accepts_def would_block_def os_call_retry_def accept_bytes_def
  SDL_ClearError_def to_size_t_def Let_def sent_def numeral_eq_Suc

text \<open>
  C5 (the code departs from the claim). \<open>SDL_SaveFile_IO\<close> passes
  \<^verbatim>\<open>data + size_written\<close> and \<^verbatim>\<open>datasize - size_written\<close> to each write, where
  \<^verbatim>\<open>size_written\<close> is the count of the last write, not the total. Saving the four
  bytes 1, 2, 3, 4 to a descriptor stream that takes one byte for each write
  succeeds after sending 1, 2, 2, 2; on a stream that takes two bytes, then
  would block, then takes four, it succeeds after sending 1, 2, 1, 2, 3, 4.
\<close>

theorem save_file_resends_and_skips:
  "sent (SDL_SaveFile_IO 10 (Some fd_stream) (Some [1, 2, 3, 4]) 4 False world_one_byte_writes)
     = Some (True, [1, 2, 2, 2])
   \<and> sent (SDL_SaveFile_IO 10 (Some fd_stream) (Some [1, 2, 3, 4]) 4 False world_would_block)
     = Some (True, [1, 2, 1, 2, 3, 4])"
  by (simp add: save_eval world_one_byte_writes_def world_would_block_def)

section \<open>Writing and reading back\<close>

lemma unat_of_nat64: "n < 2 ^ 64 \<Longrightarrow> unat (of_nat n :: 64 word) = n"
  by (simp add: unat_of_nat)

lemma load_store:
  assumes "length bs \<le> 2 ^ 64"
  shows "load (store m a bs) a (length bs) = bs"
proof (rule nth_equalityI)
  show "length (load (store m a bs) a (length bs)) = length bs"
    by (simp add: load_def)
next
  fix i assume "i < length (load (store m a bs) a (length bs))"
  then have i: "i < length bs" by (simp add: load_def)
  then have "i < 2 ^ 64" using assms by linarith
  then have "unat (of_nat i :: 64 word) = i" by (rule unat_of_nat64)
  then show "load (store m a bs) a (length bs) ! i = bs ! i"
    using i by (simp add: load_def store_def)
qed

lemma length_load: "length (load m a n) = n"
  by (simp add: load_def)

lemma mem_write_fits:
  assumes "length b \<le> unat (stop d - here d)"
  shows "mem_write (p, d) b st w =
    (length b, (p, d\<lparr>here := here d + of_nat (length b)\<rparr>), st,
     w\<lparr>mem := store (mem w) (here d) b\<rparr>)"
  using assms by (simp add: Let_def)

lemma mem_read_fits:
  assumes "n \<le> unat (stop d - here d)"
  shows "mem_read (p, d) n st w =
    (load (mem w) (here d) n, (p, d\<lparr>here := here d + of_nat n\<rparr>), st, w)"
  using assms by (simp add: Let_def)

lemma seek_start:
  assumes "base d \<le> stop d"
  shows "mem_seek (p, d) 0 SDL_IO_SEEK_SET w = (0, (p, d\<lparr>here := base d\<rparr>), w)"
  using assms by (auto simp: Let_def)

lemma fixed_round_trip:
  fixes s :: "IOStreamMemData SDL_IOStream"
  assumes wf: "write_fn (iface s) = Some mem_write" and sf: "seek_fn (iface s) = Some mem_seek"
    and rf: "read_fn (iface s) = Some mem_read"
    and u: "userdata s = (p, d)" and h: "here d = base d" and bs: "base d \<le> stop d"
    and l: "length b \<le> unat (stop d - base d)" and ne: "b \<noteq> []"
  shows "SDL_WriteIO (Some s) b w =
           (length b,
            Some (s\<lparr>status := SDL_IO_STATUS_READY,
                     userdata := (p, d\<lparr>here := base d + of_nat (length b)\<rparr>)\<rparr>),
            (SDL_ClearError w)\<lparr>mem := store (mem w) (base d) b\<rparr>)"
    and "SDL_SeekIO (Some (s\<lparr>status := SDL_IO_STATUS_READY,
                     userdata := (p, d\<lparr>here := base d + of_nat (length b)\<rparr>)\<rparr>)) 0
            SDL_IO_SEEK_SET ((SDL_ClearError w)\<lparr>mem := store (mem w) (base d) b\<rparr>) =
           (0, Some (s\<lparr>status := SDL_IO_STATUS_READY, userdata := (p, d)\<rparr>),
            (SDL_ClearError w)\<lparr>mem := store (mem w) (base d) b\<rparr>)"
    and "SDL_ReadIO (Some (s\<lparr>status := SDL_IO_STATUS_READY, userdata := (p, d)\<rparr>)) (length b)
            ((SDL_ClearError w)\<lparr>mem := store (mem w) (base d) b\<rparr>) =
           (b, Some (s\<lparr>status := SDL_IO_STATUS_READY,
                     userdata := (p, d\<lparr>here := base d + of_nat (length b)\<rparr>)\<rparr>),
            (SDL_ClearError w)\<lparr>mem := store (mem w) (base d) b\<rparr>)"
proof -
  have l': "length b \<le> unat (stop d - here d)" using l h by simp
  have lb: "length b \<le> 2 ^ 64"
    using l unsigned_less[of "stop d - base d", where 'a = nat] by simp
  show "SDL_WriteIO (Some s) b w =
           (length b,
            Some (s\<lparr>status := SDL_IO_STATUS_READY,
                     userdata := (p, d\<lparr>here := base d + of_nat (length b)\<rparr>)\<rparr>),
            (SDL_ClearError w)\<lparr>mem := store (mem w) (base d) b\<rparr>)"
    using wf u ne mem_write_fits[OF l'] h
    by (simp add: SDL_WriteIO_def Let_def SDL_ClearError_def del: mem_write.simps)
  show "SDL_SeekIO (Some (s\<lparr>status := SDL_IO_STATUS_READY,
                     userdata := (p, d\<lparr>here := base d + of_nat (length b)\<rparr>)\<rparr>)) 0
            SDL_IO_SEEK_SET ((SDL_ClearError w)\<lparr>mem := store (mem w) (base d) b\<rparr>) =
           (0, Some (s\<lparr>status := SDL_IO_STATUS_READY, userdata := (p, d)\<rparr>),
            (SDL_ClearError w)\<lparr>mem := store (mem w) (base d) b\<rparr>)"
    using sf seek_start[of "d\<lparr>here := base d + of_nat (length b)\<rparr>" p] bs h
    by (simp add: SDL_SeekIO_def del: mem_seek.simps)
  show "SDL_ReadIO (Some (s\<lparr>status := SDL_IO_STATUS_READY, userdata := (p, d)\<rparr>)) (length b)
            ((SDL_ClearError w)\<lparr>mem := store (mem w) (base d) b\<rparr>) =
           (b, Some (s\<lparr>status := SDL_IO_STATUS_READY,
                     userdata := (p, d\<lparr>here := base d + of_nat (length b)\<rparr>)\<rparr>),
            (SDL_ClearError w)\<lparr>mem := store (mem w) (base d) b\<rparr>)"
    using rf ne mem_read_fits[OF l', of p] h load_store[OF lb]
    by (simp add: SDL_ReadIO_def Let_def SDL_ClearError_def del: mem_read.simps)
qed


lemma mem_io_write_fits:
  assumes "length b \<le> unat (stop d - here d)"
  shows "mem_io (a, d) (Addr (here d)) (Caller b) (length b) w =
    (length b, [], (a, d\<lparr>here := here d + of_nat (length b)\<rparr>),
     w\<lparr>mem := store (mem w) (here d) b\<rparr>)"
  using assms by (simp add: Let_def)

lemma mem_io_read_fits:
  assumes "n \<le> unat (stop d - here d)"
  shows "mem_io (a, d) (Caller []) (Addr (here d)) n w =
    (n, load (mem w) (here d) n, (a, d\<lparr>here := here d + of_nat n\<rparr>), w)"
  using assms by (simp add: Let_def)

lemma dynamic_write_fits:
  assumes "length b \<le> unat (stop (data g) - here (data g))"
  shows "dynamic_mem_write (p, g) b st w =
    (length b, (p, g\<lparr>data := (data g)\<lparr>here := here (data g) + of_nat (length b)\<rparr>\<rparr>), st,
     w\<lparr>mem := store (mem w) (here (data g)) b\<rparr>)"
  using assms mem_io_write_fits[OF assms, of "p + 8" w]
  by (simp add: Let_def del: mem_io.simps)

lemma dynamic_write_set_stop:
  assumes "length b < 2 ^ 64"
  shows "(case mem_io (q + 8, (data g)\<lparr>stop := here (data g) + of_nat (length b)\<rparr>)
                (Addr (here (data g))) (Caller b) (length b) w of
            (n, out, (q1, d), w3) \<Rightarrow>
              (n, (q, g\<lparr>data := (data g)\<lparr>stop := here (data g) + of_nat (length b)\<rparr>\<rparr>
                       \<lparr>data := d\<rparr>), st, w3))
       = (length b,
          (q, g\<lparr>data := (data g)\<lparr>stop := here (data g) + of_nat (length b),
                                 here := here (data g) + of_nat (length b)\<rparr>\<rparr>), st,
          w\<lparr>mem := store (mem w) (here (data g)) b\<rparr>)"
proof -
  let ?d = "(data g)\<lparr>stop := here (data g) + of_nat (length b)\<rparr>"
  have "unat (stop ?d - here ?d) = length b"
    using assms by (simp add: unat_of_nat64)
  then have f: "length b \<le> unat (stop ?d - here ?d)" by simp
  show ?thesis
    using mem_io_write_fits[OF f, of "q + 8" w]
    by (simp del: mem_io.simps)
qed

lemma dynamic_write_within:
  assumes "length b > unat (stop (data g) - here (data g))"
    and "length b \<le> unat (end_ptr g - here (data g))"
  shows "dynamic_mem_write (p, g) b st w =
    (length b,
     (p, g\<lparr>data := (data g)\<lparr>stop := here (data g) + of_nat (length b),
                            here := here (data g) + of_nat (length b)\<rparr>\<rparr>), st,
     w\<lparr>mem := store (mem w) (here (data g)) b\<rparr>)"
proof -
  have l: "length b < 2 ^ 64"
    using assms(2) unsigned_less[of "end_ptr g - here (data g)", where 'a = nat] by simp
  show ?thesis
    using assms dynamic_write_set_stop[OF l, where q = p and g = g and w = w and st = st]
    by (simp add: Let_def del: mem_io.simps)
qed

lemma dynamic_write_grow:
  assumes "length b > unat (stop (data g) - here (data g))"
    and "length b > unat (end_ptr g - here (data g))"
    and "length b < 2 ^ 64"
    and "dynamic_mem_realloc (p, g) (length b) w = (ok, (q, g1), w1)"
  shows "dynamic_mem_write (p, g) b st w =
    (if \<not> ok then (0, (q, g1), st, w1)
     else (length b,
       (q, g1\<lparr>data := (data g1)\<lparr>stop := here (data g1) + of_nat (length b),
                                here := here (data g1) + of_nat (length b)\<rparr>\<rparr>), st,
       w1\<lparr>mem := store (mem w1) (here (data g1)) b\<rparr>))"
  using assms dynamic_write_set_stop[OF assms(3), where q = q and g = g1 and w = w1 and st = st]
  by (simp add: Let_def del: mem_io.simps dynamic_mem_realloc.simps)

lemma realloc_moves:
  assumes "dynamic_mem_realloc (p, g) sz w = (ok, (q, g1), w1)" and "ok"
  shows "q = p \<and> here (data g1) - base (data g1) = here (data g) - base (data g)"
  using assms unfolding dynamic_mem_realloc_unfold
  by (auto simp: Let_def split: prod.splits if_splits)


lemma dynamic_write_full_post:
  assumes r: "dynamic_mem_write (p, g) b st w = (length b, (q, g'), st', w')"
    and ne: "b \<noteq> []" and l: "length b < 2 ^ 64" and h: "here (data g) = base (data g)"
  shows "q = p \<and> st' = st \<and> here (data g') = base (data g') + of_nat (length b)
       \<and> length b \<le> unat (stop (data g') - base (data g'))
       \<and> load (mem w') (base (data g')) (length b) = b"
proof -
  have lb: "length b \<le> 2 ^ 64" using l by simp
  note ls = load_store[OF lb]
  consider (A) "length b \<le> unat (stop (data g) - here (data g))"
    | (B) "length b > unat (stop (data g) - here (data g))"
          "length b \<le> unat (end_ptr g - here (data g))"
    | (C) "length b > unat (stop (data g) - here (data g))"
          "length b > unat (end_ptr g - here (data g))"
    by linarith
  then show ?thesis
  proof cases
    case A
    show ?thesis
      using r A h ls unfolding dynamic_write_fits[OF A] by auto
  next
    case B
    show ?thesis
      using r h ls l unfolding dynamic_write_within[OF B] by (auto simp: unat_of_nat64)
  next
    case C
    obtain ok q1 g1 w1 where re: "dynamic_mem_realloc (p, g) (length b) w = (ok, (q1, g1), w1)"
      by (metis prod.exhaust)
    note wg = dynamic_write_grow[OF C l re, of st]
    have ok: ok using r ne unfolding wg by (auto split: if_splits)
    have m: "q1 = p" "here (data g1) = base (data g1)"
      using realloc_moves[OF re ok] h by simp_all
    show ?thesis
      using r ok m ls l unfolding wg by (auto simp: unat_of_nat64)
  qed
qed

lemma dynamic_seek_start:
  assumes "base (data g) \<le> stop (data g)"
  shows "dynamic_mem_seek (p, g) 0 SDL_IO_SEEK_SET w
         = (0, (p, g\<lparr>data := (data g)\<lparr>here := base (data g)\<rparr>\<rparr>), w)"
  using seek_start[OF assms, of "p + 8" w] by (simp del: mem_seek.simps)

lemma dynamic_read_fits:
  assumes "n \<le> unat (stop (data g) - here (data g))"
  shows "dynamic_mem_read (p, g) n st w =
    (load (mem w) (here (data g)) n,
     (p, g\<lparr>data := (data g)\<lparr>here := here (data g) + of_nat n\<rparr>\<rparr>), st, w)"
  using mem_io_read_fits[OF assms, of "p + 8" w] by (simp del: mem_io.simps)

lemma growable_round_trip:
  fixes t :: "IOStreamDynamicMemData SDL_IOStream"
  assumes wf: "write_fn (iface t) = Some dynamic_mem_write"
    and sf: "seek_fn (iface t) = Some dynamic_mem_seek"
    and rf: "read_fn (iface t) = Some dynamic_mem_read"
    and h: "here (data (snd (userdata t))) = base (data (snd (userdata t)))"
    and l: "length b < 2 ^ 64"
    and wr: "SDL_WriteIO (Some t) b w = (length b, ca, wa)"
    and ok: "region_ok ca"
  shows "case SDL_SeekIO ca 0 SDL_IO_SEEK_SET wa of (pos, cb, wb) \<Rightarrow>
           pos = 0 \<and> (case SDL_ReadIO cb (length b) wb of (bytes, cc, wc) \<Rightarrow> bytes = b)"
proof -
  obtain p g where u: "userdata t = (p, g)" by (metis prod.exhaust)
  have hg: "here (data g) = base (data g)" using h u by simp
  show ?thesis
  proof (cases "b = []")
    case True
    have ca: "ca = Some (t\<lparr>status := SDL_IO_STATUS_READY\<rparr>)"
      using wr wf True by (simp add: SDL_WriteIO_def Let_def)
    have bs: "base (data g) \<le> stop (data g)"
      using ok u unfolding ca by (simp add: region_ok_def)
    show ?thesis
      unfolding ca using sf rf u True dynamic_seek_start[OF bs, of p wa]
      by (simp add: SDL_SeekIO_def SDL_ReadIO_def Let_def del: dynamic_mem_seek.simps)
  next
    case False
    obtain n q g' st' w' where dw:
      "dynamic_mem_write (p, g) b SDL_IO_STATUS_READY (SDL_ClearError w) = (n, (q, g'), st', w')"
      by (metis prod.exhaust)
    have n: "n = length b"
      using wr wf u False dw
      by (simp add: SDL_WriteIO_def Let_def del: dynamic_mem_write.simps)
    note post = dynamic_write_full_post[OF dw[unfolded n] False l hg]
    have ca: "ca = Some (t\<lparr>status := SDL_IO_STATUS_READY, userdata := (p, g')\<rparr>)" and wa: "wa = w'"
      using wr wf u False dw post n
      by (auto simp add: SDL_WriteIO_def Let_def simp del: dynamic_mem_write.simps)
    have bs: "base (data g') \<le> stop (data g')"
      using ok unfolding ca by (simp add: region_ok_def)
    let ?g = "g'\<lparr>data := (data g')\<lparr>here := base (data g')\<rparr>\<rparr>"
    have f: "length b \<le> unat (stop (data ?g) - here (data ?g))"
      using post by simp
    have ld: "load (mem (SDL_ClearError w')) (here (data ?g)) (length b) = b"
      using post by (simp add: SDL_ClearError_def)
    show ?thesis
      unfolding ca wa
      using sf rf False dynamic_seek_start[OF bs, of p w']
        dynamic_read_fits[OF f, of p SDL_IO_STATUS_READY "SDL_ClearError w'"] ld
      by (simp add: SDL_SeekIO_def SDL_ReadIO_def Let_def
          del: dynamic_mem_seek.simps dynamic_mem_read.simps)
  qed
qed


lemma fixed_round_trip_all:
  fixes s :: "IOStreamMemData SDL_IOStream"
  assumes wf: "write_fn (iface s) = Some mem_write" and sf: "seek_fn (iface s) = Some mem_seek"
    and rf: "read_fn (iface s) = Some mem_read"
    and u: "userdata s = (p, d)" and h: "here d = base d" and bs: "base d \<le> stop d"
    and l: "length b \<le> unat (stop d - base d)"
  shows "read_back (Some s) b w = (length b, 0, b)"
proof (cases "b = []")
  case True
  have d: "d\<lparr>here := base d\<rparr> = d" using h by (metis IOStreamMemData.surjective
        IOStreamMemData.update_convs(2) old.unit.exhaust)
  show ?thesis
    using True wf sf rf u seek_start[OF bs, of p "SDL_ClearError w"] d
    by (simp add: read_back_def SDL_WriteIO_def SDL_SeekIO_def SDL_ReadIO_def Let_def
        del: mem_seek.simps)
next
  case False
  note t = fixed_round_trip[OF wf sf rf u h bs l False, of w]
  show ?thesis
    unfolding read_back_def t(1) by (simp add: t(2) t(3))
qed

text \<open>
  C2, as the code has it. For a stream whose interface holds the write, seek
  and read capabilities of the fixed-memory backend, with its cursor at the
  start of a well-formed region, and every byte sequence \<open>b\<close> no longer than
  the region: write(b) reports \<open>|b|\<close> bytes, seek(0, Set) reports position 0
  and the read of length \<open>|b|\<close> returns exactly \<open>b\<close>. For a stream whose
  interface holds the capabilities of the growable backend, with its cursor
  at the start: whenever write(b) reports \<open>|b|\<close> bytes and leaves a region
  that does not wrap around the address space, seek(0, Set) reports 0 and the
  read returns exactly \<open>b\<close>.
\<close>

theorem memory_round_trip:
  fixes s :: "IOStreamMemData SDL_IOStream" and t :: "IOStreamDynamicMemData SDL_IOStream"
  shows
  "(write_fn (iface s) = Some mem_write \<and> seek_fn (iface s) = Some mem_seek
      \<and> read_fn (iface s) = Some mem_read
      \<and> here (snd (userdata s)) = base (snd (userdata s))
      \<and> base (snd (userdata s)) \<le> stop (snd (userdata s))
      \<and> length b \<le> unat (stop (snd (userdata s)) - base (snd (userdata s)))
    \<longrightarrow> read_back (Some s) b w = (length b, 0, b))
 \<and> (write_fn (iface t) = Some dynamic_mem_write \<and> seek_fn (iface t) = Some dynamic_mem_seek
      \<and> read_fn (iface t) = Some dynamic_mem_read
      \<and> here (data (snd (userdata t))) = base (data (snd (userdata t)))
      \<and> length b < 2 ^ 64
      \<and> fst (SDL_WriteIO (Some t) b w) = length b
      \<and> region_ok (fst (snd (SDL_WriteIO (Some t) b w)))
    \<longrightarrow> read_back (Some t) b w = (length b, 0, b))"
proof (intro conjI impI)
  assume a: "write_fn (iface s) = Some mem_write \<and> seek_fn (iface s) = Some mem_seek
      \<and> read_fn (iface s) = Some mem_read
      \<and> here (snd (userdata s)) = base (snd (userdata s))
      \<and> base (snd (userdata s)) \<le> stop (snd (userdata s))
      \<and> length b \<le> unat (stop (snd (userdata s)) - base (snd (userdata s)))"
  have u: "userdata s = (fst (userdata s), snd (userdata s))" by simp
  show "read_back (Some s) b w = (length b, 0, b)"
    using fixed_round_trip_all[OF _ _ _ u] a by blast
next
  assume a: "write_fn (iface t) = Some dynamic_mem_write \<and> seek_fn (iface t) = Some dynamic_mem_seek
      \<and> read_fn (iface t) = Some dynamic_mem_read
      \<and> here (data (snd (userdata t))) = base (data (snd (userdata t)))
      \<and> length b < 2 ^ 64
      \<and> fst (SDL_WriteIO (Some t) b w) = length b
      \<and> region_ok (fst (snd (SDL_WriteIO (Some t) b w)))"
  obtain n ca wa where wr: "SDL_WriteIO (Some t) b w = (n, ca, wa)" by (metis prod.exhaust)
  have n: "n = length b" and ok: "region_ok ca" using a wr by simp_all
  note g = growable_round_trip[OF _ _ _ _ _ wr[unfolded n] ok]
  have "case SDL_SeekIO ca 0 SDL_IO_SEEK_SET wa of (pos, cb, wb) \<Rightarrow>
           pos = 0 \<and> (case SDL_ReadIO cb (length b) wb of (bytes, cc, wc) \<Rightarrow> bytes = b)"
    by (rule g) (use a in simp_all)
  then show "read_back (Some t) b w = (length b, 0, b)"
    unfolding read_back_def wr n by (auto split: prod.splits)
qed


theorem memory_round_trip_witness:
  "read_back (Some mem_stream_rw) [1, 2, 3] world0 = (3, 0, [1, 2, 3])
   \<and> read_back (Some dynamic_stream) [1, 2, 3] world_realloc_true = (3, 0, [1, 2, 3])"
proof -
  have a: "write_fn (iface mem_stream_rw) = Some mem_write \<and> seek_fn (iface mem_stream_rw) = Some mem_seek
      \<and> read_fn (iface mem_stream_rw) = Some mem_read
      \<and> here (snd (userdata mem_stream_rw)) = base (snd (userdata mem_stream_rw))
      \<and> base (snd (userdata mem_stream_rw)) \<le> stop (snd (userdata mem_stream_rw))
      \<and> length [1, 2, 3 :: Uint8]
          \<le> unat (stop (snd (userdata mem_stream_rw)) - base (snd (userdata mem_stream_rw)))"
    by (simp add: mem_stream_rw_def buffer5_def zero_iface_def)
  have w: "fst (SDL_WriteIO (Some dynamic_stream) [1, 2, 3] world_realloc_true) = 3"
    "fst (snd (SDL_WriteIO (Some dynamic_stream) [1, 2, 3] world_realloc_true)) =
       Some (dynamic_stream\<lparr>userdata := (64, \<lparr>stream = 128,
           data = \<lparr>base = 8192, here = 8195, stop = 8195\<rparr>, end_ptr = 9216\<rparr>)\<rparr>)"
    by (simp_all add: SDL_WriteIO_def dynamic_stream_def fresh_dynamic_def world_realloc_true_def
        world_realloc_def world0_def zero_iface_def zero_props_def SDL_ClearError_def
        SDL_GetIOProperties_def SDL_realloc_def next_answer_def Let_def)
  have b: "write_fn (iface dynamic_stream) = Some dynamic_mem_write
      \<and> seek_fn (iface dynamic_stream) = Some dynamic_mem_seek
      \<and> read_fn (iface dynamic_stream) = Some dynamic_mem_read
      \<and> here (data (snd (userdata dynamic_stream))) = base (data (snd (userdata dynamic_stream)))
      \<and> length [1, 2, 3 :: Uint8] < 2 ^ 64
      \<and> fst (SDL_WriteIO (Some dynamic_stream) [1, 2, 3] world_realloc_true) = length [1, 2, 3 :: Uint8]
      \<and> region_ok (fst (snd (SDL_WriteIO (Some dynamic_stream) [1, 2, 3] world_realloc_true)))"
    by (simp add: w region_ok_def) (simp add: dynamic_stream_def fresh_dynamic_def zero_iface_def)
  note t = memory_round_trip[where s = mem_stream_rw and b = "[1, 2, 3]" and w = world0
      and t = dynamic_stream]
  note u = memory_round_trip[where t = dynamic_stream and b = "[1, 2, 3]"
      and w = world_realloc_true and s = mem_stream_rw]
  have "read_back (Some mem_stream_rw) [1, 2, 3] world0 = (3, 0, [1, 2, 3])"
    using t[THEN conjunct1, rule_format, OF a] by simp
  moreover have "read_back (Some dynamic_stream) [1, 2, 3] world_realloc_true = (3, 0, [1, 2, 3])"
    using u[THEN conjunct2, rule_format, OF b] by simp
  ultimately show ?thesis by simp
qed

text \<open>
  The round trip does not hold for every handle and every \<open>b\<close>. Through the
  handle \<open>SDL_IOFromConstMem\<close> returns, which is read-only, and through the one
  \<open>SDL_IOFromMem\<close> returns, the write reports 0 bytes, the seek \<open>- 1\<close> and the
  read returns nothing. Six bytes written to a five-byte region are
  truncated to five.
\<close>

theorem memory_round_trip_counterexample:
  "(case SDL_IOFromConstMem 4096 5 world_alloc of (h, w) \<Rightarrow>
      h \<noteq> None \<and> read_back h [1] w = (0, - 1, []))
   \<and> (case SDL_IOFromMem 4096 5 world_alloc of (h, w) \<Rightarrow>
      h \<noteq> None \<and> read_back h [1] w = (0, - 1, []))
   \<and> read_back (Some mem_stream_rw) [1, 2, 3, 4, 5, 6] world0 = (5, 0, [1, 2, 3, 4, 5])"
proof -
  have a: "(case SDL_IOFromConstMem 4096 5 world_alloc of (h, w) \<Rightarrow>
      h \<noteq> None \<and> read_back h [1] w = (0, - 1, []))"
    by (simp add: SDL_IOFromConstMem_def ctor_eval read_back_def SDL_WriteIO_def SDL_SeekIO_def
        SDL_ReadIO_def)
  have b: "(case SDL_IOFromMem 4096 5 world_alloc of (h, w) \<Rightarrow>
      h \<noteq> None \<and> read_back h [1] w = (0, - 1, []))"
    by (simp add: SDL_IOFromMem_def ctor_eval read_back_def SDL_WriteIO_def SDL_SeekIO_def
        SDL_ReadIO_def)
  have c: "read_back (Some mem_stream_rw) [1, 2, 3, 4, 5, 6] world0 = (5, 0, [1, 2, 3, 4, 5])"
    by (simp add: read_back_def SDL_WriteIO_def SDL_SeekIO_def SDL_ReadIO_def mem_stream_rw_def
        buffer5_def zero_iface_def world0_def SDL_ClearError_def Let_def load_def store_def
        upt_rec)
  show ?thesis using a b c by simp
qed

section \<open>Loading a stream of unknown size\<close>











end
